theory Spec2Isabelle
  imports Complex_Main
begin

section \<open>JavaScript numbers\<close>

text \<open>
  A JavaScript number is an IEEE-754 double. The embedding keeps the special values
  (NaN, the two infinities, negative zero) and computes on finite values exactly, as
  real numbers: rounding, overflow and underflow are not part of the model.
  \<open>Fin 0\<close> is positive zero and \<open>NZero\<close> is negative zero; \<open>Fin x\<close> with
  \<open>x \<noteq> 0\<close> is the finite number \<open>x\<close>.
\<close>

datatype jsnum = NaN | PInf | NInf | NZero | Fin real

definition isNaN :: "jsnum \<Rightarrow> bool" where
  "isNaN a = (a = NaN)"

fun finite_js :: "jsnum \<Rightarrow> bool" where
  "finite_js (Fin x) = True"
| "finite_js NZero = True"
| "finite_js a = False"

fun val :: "jsnum \<Rightarrow> real" where
  "val (Fin x) = x"
| "val a = 0"

fun neg_sign :: "jsnum \<Rightarrow> bool" where
  "neg_sign NInf = True"
| "neg_sign NZero = True"
| "neg_sign (Fin x) = (x < 0)"
| "neg_sign a = False"

definition is_zero :: "jsnum \<Rightarrow> bool" where
  "is_zero a = (a = NZero \<or> a = Fin 0)"

definition is_inf :: "jsnum \<Rightarrow> bool" where
  "is_inf a = (a = PInf \<or> a = NInf)"

definition signed_zero :: "bool \<Rightarrow> jsnum" where
  "signed_zero s = (if s then NZero else Fin 0)"

definition signed_inf :: "bool \<Rightarrow> jsnum" where
  "signed_inf s = (if s then NInf else PInf)"

definition mk_fin :: "bool \<Rightarrow> real \<Rightarrow> jsnum" where
  "mk_fin s r = (if r = 0 then signed_zero s else Fin r)"

instantiation jsnum :: "{plus, minus, uminus, times, inverse, abs, ord}"
begin

fun uminus_jsnum :: "jsnum \<Rightarrow> jsnum" where
  "uminus_jsnum NaN = NaN"
| "uminus_jsnum PInf = NInf"
| "uminus_jsnum NInf = PInf"
| "uminus_jsnum NZero = Fin 0"
| "uminus_jsnum (Fin x) = (if x = 0 then NZero else Fin (- x))"

definition plus_jsnum :: "jsnum \<Rightarrow> jsnum \<Rightarrow> jsnum" where
  "plus_jsnum a b =
     (if a = NaN \<or> b = NaN then NaN
      else if is_inf a then (if is_inf b \<and> a \<noteq> b then NaN else a)
      else if is_inf b then b
      else if a = NZero \<and> b = NZero then NZero
      else Fin (val a + val b))"

definition minus_jsnum :: "jsnum \<Rightarrow> jsnum \<Rightarrow> jsnum" where
  "minus_jsnum a b = a + (- b)"

definition times_jsnum :: "jsnum \<Rightarrow> jsnum \<Rightarrow> jsnum" where
  "times_jsnum a b =
     (if a = NaN \<or> b = NaN then NaN
      else if is_inf a \<or> is_inf b
        then (if is_zero a \<or> is_zero b then NaN else signed_inf (neg_sign a \<noteq> neg_sign b))
      else mk_fin (neg_sign a \<noteq> neg_sign b) (val a * val b))"

definition divide_jsnum :: "jsnum \<Rightarrow> jsnum \<Rightarrow> jsnum" where
  "divide_jsnum a b =
     (if a = NaN \<or> b = NaN then NaN
      else if is_inf a
        then (if is_inf b then NaN else signed_inf (neg_sign a \<noteq> neg_sign b))
      else if is_inf b then signed_zero (neg_sign a \<noteq> neg_sign b)
      else if is_zero b
        then (if is_zero a then NaN else signed_inf (neg_sign a \<noteq> neg_sign b))
      else mk_fin (neg_sign a \<noteq> neg_sign b) (val a / val b))"

definition inverse_jsnum :: "jsnum \<Rightarrow> jsnum" where
  "inverse_jsnum a = Fin 1 div a"

fun abs_jsnum :: "jsnum \<Rightarrow> jsnum" where
  "abs_jsnum NaN = NaN"
| "abs_jsnum PInf = PInf"
| "abs_jsnum NInf = PInf"
| "abs_jsnum NZero = Fin 0"
| "abs_jsnum (Fin x) = Fin \<bar>x\<bar>"

definition less_jsnum :: "jsnum \<Rightarrow> jsnum \<Rightarrow> bool" where
  "less_jsnum a b =
     (a \<noteq> NaN \<and> b \<noteq> NaN \<and>
      (if a = NInf then b \<noteq> NInf
       else if b = PInf then a \<noteq> PInf
       else finite_js a \<and> finite_js b \<and> val a < val b))"

definition less_eq_jsnum :: "jsnum \<Rightarrow> jsnum \<Rightarrow> bool" where
  "less_eq_jsnum a b =
     (a \<noteq> NaN \<and> b \<noteq> NaN \<and>
      (a = NInf \<or> b = PInf \<or> (finite_js a \<and> finite_js b \<and> val a \<le> val b)))"

instance ..

end

text \<open>Strict equality \<open>===\<close> on numbers: NaN equals nothing, the two zeros are equal.\<close>

definition js_eq :: "jsnum \<Rightarrow> jsnum \<Rightarrow> bool" where
  "js_eq a b = (a \<noteq> NaN \<and> b \<noteq> NaN \<and> (a = b \<or> (is_zero a \<and> is_zero b)))"

type_synonym triple = "jsnum \<times> jsnum \<times> jsnum"

definition triple_eq :: "triple \<Rightarrow> triple \<Rightarrow> bool" where
  "triple_eq u v =
     (case u of (a, b, c) \<Rightarrow> case v of (a', b', c') \<Rightarrow> js_eq a a' \<and> js_eq b b' \<and> js_eq c c')"

section \<open>The saturation flags\<close>

text \<open>
  The static fields \<open>RGB.isSaturated\<close>, \<open>Yxy.isSaturated\<close> and
  \<open>Munsell.isSaturated\<close> are the only mutable state of the module. A function that
  assigns one of them takes the flags and returns them updated.
\<close>

record flags =
  RGB_isSaturated :: bool
  Yxy_isSaturated :: bool
  Munsell_isSaturated :: bool

definition flags0 :: flags where
  "flags0 = \<lparr>RGB_isSaturated = False, Yxy_isSaturated = False, Munsell_isSaturated = False\<rparr>"

section \<open>Yxy\<close>

text \<open>\<open>Lab.D65_xyz\<close> and \<open>Lab.D65_XYZ\<close>, computed by division as in the source.\<close>

definition D65_xyz :: triple where
  "D65_xyz = (Fin 0.31273, Fin 0.32902, Fin 0.35825)"

definition D65_XYZ :: triple where
  "D65_XYZ = (case D65_xyz of (x, y, z) \<Rightarrow> (x / y, Fin 1, z / y))"

text \<open>\<open>Yxy.fromXYZ\<close>.\<close>

definition Yxy_fromXYZ :: "triple \<Rightarrow> triple" where
  "Yxy_fromXYZ xyz =
     (case xyz of (x, y, z) \<Rightarrow>
        let sum = x + y + z in
        if js_eq sum (Fin 0) then (y, Fin 0.31273, Fin 0.32902)
        else (y, x / sum, y / sum))"

text \<open>\<open>Yxy.toXYZ\<close>; both branches assign \<open>Yxy.isSaturated\<close>.\<close>

definition Yxy_toXYZ :: "triple \<Rightarrow> flags \<Rightarrow> triple \<times> flags" where
  "Yxy_toXYZ yxy fl =
     (case yxy of (y, sx, sy) \<Rightarrow>
        let d0 = sx * y / sy in
        if isNaN d0 then ((Fin 0, Fin 0, Fin 0), fl\<lparr>Yxy_isSaturated := False\<rparr>)
        else
          let d1 = y;
              d2 = (Fin 1 - sx - sy) * y / sy
          in case D65_XYZ of (wx, wy, wz) \<Rightarrow>
               ((d0, d1, d2), fl\<lparr>Yxy_isSaturated := (wx < d0 \<or> wy < d1 \<or> wz < d2)\<rparr>))"

section \<open>sRGB\<close>

text \<open>
  The gamma functions take and return numbers; on a real argument every intermediate
  value is again real (no division by a variable, and \<open>Math.pow\<close> is only reached with
  a positive base, where it is \<open>powr\<close>), so they are embedded over \<open>real\<close>. The literals
  \<open>2.4\<close> and \<open>1 / 2.4\<close> are the exact rationals.
\<close>

text \<open>\<open>RGB._func\<close>: sRGB to linear RGB.\<close>

definition RGB_func :: "real \<Rightarrow> real" where
  "RGB_func x = (if x < 0.03928 then x / 12.92 else ((x + 0.055) / 1.055) powr 2.4)"

text \<open>\<open>RGB._invFunc\<close>: linear RGB to sRGB.\<close>

definition RGB_invFunc :: "real \<Rightarrow> real" where
  "RGB_invFunc x = (if x > 0.00304 then x powr (1 / 2.4) * 1.055 - 0.055 else x * 12.92)"

text \<open>\<open>RGB.toLRGB\<close>.\<close>

definition RGB_toLRGB :: "real \<times> real \<times> real \<Rightarrow> real \<times> real \<times> real" where
  "RGB_toLRGB rgb =
     (case rgb of (r, g, b) \<Rightarrow> (RGB_func (r / 255), RGB_func (g / 255), RGB_func (b / 255)))"

text \<open>
  The operator \<open>x | 0\<close> is ECMAScript's ToInt32: truncate towards zero, reduce modulo
  \<open>2^32\<close>, and read the result as a signed 32-bit integer.
\<close>

definition toInt32 :: "real \<Rightarrow> int" where
  "toInt32 x =
     (let t = (if x < 0 then \<lceil>x\<rceil> else \<lfloor>x\<rfloor>);
          m = t mod 2 ^ 32
      in if 2 ^ 31 \<le> m then m - 2 ^ 32 else m)"

text \<open>
  \<open>RGB._checkRange\<close>: the six tests in the order of the source, each on the value the
  previous one left; returns the clamped array and the local \<open>isSaturated\<close>.
\<close>

definition RGB_checkRange :: "int \<times> int \<times> int \<Rightarrow> int \<Rightarrow> int \<Rightarrow> (int \<times> int \<times> int) \<times> bool" where
  "RGB_checkRange vs mn mx =
     (case vs of (v0, v1, v2) \<Rightarrow>
        let s = False;
            (v0, s) = (if v0 > mx then (mx, True) else (v0, s));
            (v0, s) = (if v0 < mn then (mn, True) else (v0, s));
            (v1, s) = (if v1 > mx then (mx, True) else (v1, s));
            (v1, s) = (if v1 < mn then (mn, True) else (v1, s));
            (v2, s) = (if v2 > mx then (mx, True) else (v2, s));
            (v2, s) = (if v2 < mn then (mn, True) else (v2, s))
        in ((v0, v1, v2), s))"

text \<open>\<open>RGB.fromLRGB\<close>; it assigns \<open>RGB.isSaturated\<close>.\<close>

definition RGB_fromLRGB :: "real \<times> real \<times> real \<Rightarrow> flags \<Rightarrow> (int \<times> int \<times> int) \<times> flags" where
  "RGB_fromLRGB lrgb fl =
     (case lrgb of (lr, lg, lb) \<Rightarrow>
        let dest = (toInt32 (RGB_invFunc lr * 255),
                    toInt32 (RGB_invFunc lg * 255),
                    toInt32 (RGB_invFunc lb * 255));
            (dest', sat) = RGB_checkRange dest 0 255
        in (dest', fl\<lparr>RGB_isSaturated := sat\<rparr>))"

section \<open>Munsell: lightness\<close>

text \<open>\<open>Munsell._v2y\<close>: Y of XYZ (C) from Munsell's V.\<close>

definition Munsell_v2y :: "jsnum \<Rightarrow> jsnum" where
  "Munsell_v2y v =
     (if v \<le> Fin 1 then v * Fin 0.0121
      else
        let v2 = v * v;
            v3 = v2 * v;
            y = Fin 0.0467 * v3 + Fin 0.5602 * v2 - Fin 0.1753 * v + Fin 0.8007
        in y / Fin 100)"

text \<open>
  \<open>Munsell._y2v\<close>: the Newton iteration is a \<open>while (true)\<close> whose only exit is the
  tolerance test, so the loop is a partial function and \<open>None\<close> stands for a call that
  does not return.
\<close>

partial_function (option) y2v_loop :: "jsnum \<Rightarrow> jsnum \<Rightarrow> jsnum option" where
  "y2v_loop y v =
     (let f = Munsell_v2y v * Fin 100 - y * Fin 100;
          fp = Fin 3 * Fin 0.0467 * (v * v) + Fin 2 * Fin 0.5602 * v - Fin 0.1753;
          v1 = (- f) / fp + v
      in if \<bar>v1 - v\<bar> < Fin 0.01 then Some v else y2v_loop y v1)"

definition Munsell_y2v :: "jsnum \<Rightarrow> jsnum option" where
  "Munsell_y2v y = (if y \<le> Fin 0.0121 then Some (y / Fin 0.0121) else y2v_loop y (Fin 10))"

section \<open>Math functions on JavaScript numbers\<close>

fun Math_round :: "jsnum \<Rightarrow> jsnum" where
  "Math_round (Fin x) = mk_fin (x < 0) (of_int \<lfloor>x + 1 / 2\<rfloor>)"
| "Math_round a = a"

fun Math_floor :: "jsnum \<Rightarrow> jsnum" where
  "Math_floor (Fin x) = Fin (of_int \<lfloor>x\<rfloor>)"
| "Math_floor a = a"

fun Math_sin :: "jsnum \<Rightarrow> jsnum" where
  "Math_sin (Fin x) = Fin (sin x)"
| "Math_sin NZero = NZero"
| "Math_sin a = NaN"

fun Math_cos :: "jsnum \<Rightarrow> jsnum" where
  "Math_cos (Fin x) = Fin (cos x)"
| "Math_cos NZero = Fin 1"
| "Math_cos a = NaN"

fun Math_exp :: "jsnum \<Rightarrow> jsnum" where
  "Math_exp (Fin x) = Fin (exp x)"
| "Math_exp NZero = Fin 1"
| "Math_exp PInf = PInf"
| "Math_exp NInf = Fin 0"
| "Math_exp NaN = NaN"

definition Math_PI :: jsnum where
  "Math_PI = Fin pi"

text \<open>\<open>0 | x\<close> on a number: NaN and the infinities give 0.\<close>

definition int32_of :: "jsnum \<Rightarrow> int" where
  "int32_of a = (if finite_js a then toInt32 (val a) else 0)"

section \<open>Munsell: statics, inverse transform, formatting\<close>

text \<open>
  A static property read is a lookup by name; a name that was never assigned reads as
  \<open>undefined\<close>. These are the number-valued statics the source assigns on \<open>Munsell\<close>
  (the others, \<open>isSaturated\<close>, \<open>_TBL_V\<close>, \<open>_HUE_NAMES\<close>, \<open>_ILLUMINANT_C\<close>,
  \<open>_TBL_MAX_C\<close>, \<open>_TBL\<close>, \<open>_TBL_SRC_MIN\<close> and the methods, hold no numbers).
\<close>

datatype jsval = Undefined | Num jsnum

definition Munsell_statics :: "(string \<times> jsval) list" where
  "Munsell_statics =
     [(''MONO_LIMIT_C'', Num (Fin 0.05)),
      (''_MIN_HUE'', Num (Fin 0)),
      (''_MAX_HUE'', Num (Fin 100)),
      (''_EP'', Num (Fin 0.0000000000001))]"

definition Munsell_get :: "string \<Rightarrow> jsval" where
  "Munsell_get name = (case map_of Munsell_statics name of Some v \<Rightarrow> v | None \<Rightarrow> Undefined)"

text \<open>ToNumber, as applied by \<open>+\<close>, \<open>-\<close> and the relational operators.\<close>

fun toNumber :: "jsval \<Rightarrow> jsnum" where
  "toNumber Undefined = NaN"
| "toNumber (Num a) = a"

definition Munsell_TBL_V :: "jsnum list" where
  "Munsell_TBL_V = map Fin [1, 2, 3, 4, 5, 6, 7, 8, 9]"

definition Munsell_ILLUMINANT_C :: "jsnum \<times> jsnum" where
  "Munsell_ILLUMINANT_C = (Fin 0.3101, Fin 0.3162)"

text \<open>\<open>Munsell._eq0\<close>.\<close>

definition Munsell_eq0 :: "jsnum \<Rightarrow> bool" where
  "Munsell_eq0 a = (\<bar>a\<bar> < toNumber (Munsell_get ''_EP''))"

text \<open>\<open>XYZ.fromIlluminantC\<close>.\<close>

definition XYZ_fromIlluminantC :: "triple \<Rightarrow> triple" where
  "XYZ_fromIlluminantC xyz =
     (case xyz of (x, y, z) \<Rightarrow>
        (Fin 0.9972812 * x + Fin (- 0.0093756) * y + Fin (- 0.0154171) * z,
         Fin (- 0.0010298) * x + Fin 1.0007636 * y + Fin 0.0002084 * z,
         Fin 0.9209267 * z))"

text \<open>
  The loop \<open>while (Munsell._TBL_V[vi_l + 1] <= v) ++vi_l\<close>, from a lower index \<open>i\<close>:
  a read past the end of the array is \<open>undefined\<close>, and \<open>undefined <= v\<close> is false.
\<close>

function vi_loop :: "jsnum \<Rightarrow> int \<Rightarrow> int" where
  "vi_loop v i =
     (if 0 \<le> i + 1 \<and> i + 1 < int (length Munsell_TBL_V) \<and> Munsell_TBL_V ! nat (i + 1) \<le> v
      then vi_loop v (i + 1) else i)"
  by pat_completeness auto
termination
  by (relation "measure (\<lambda>(v, i). nat (int (length Munsell_TBL_V) - i))") auto

text \<open>
  \<open>Munsell.toXYZ\<close>. The table interpolation \<open>Munsell._interpolateXY(h, c, vi)\<close> enters as
  the parameter \<open>interp\<close>, returning the two coordinates and the in-table flag.
\<close>

definition Munsell_toXYZ ::
  "(jsnum \<Rightarrow> jsnum \<Rightarrow> int \<Rightarrow> jsnum \<times> jsnum \<times> bool) \<Rightarrow> triple \<Rightarrow> flags \<Rightarrow> triple \<times> flags" where
  "Munsell_toXYZ interp hvc fl0 =
     (case hvc of (h0, v, c) \<Rightarrow>
        let h = (if toNumber (Munsell_get ''_MAX_HUE'') \<le> h0
                 then h0 - toNumber (Munsell_get ''_MAX_HUE'') else h0);
            d0 = Munsell_v2y v;
            fl = fl0\<lparr>Munsell_isSaturated := False\<rparr>;
            top = Munsell_TBL_V ! (length Munsell_TBL_V - 1)
        in
        if Munsell_eq0 v \<or> h < Fin 0 \<or> c < toNumber (Munsell_get ''MONO_LIMIT_C'') then
          let fl = fl\<lparr>Munsell_isSaturated := (Munsell_eq0 v \<and> Fin 0 < c)\<rparr>;
              (xyz, fl) = Yxy_toXYZ (d0, fst Munsell_ILLUMINANT_C, snd Munsell_ILLUMINANT_C) fl
          in (XYZ_fromIlluminantC xyz, fl)
        else if top \<le> v then
          let (x, y, ok) = interp h c (int (length Munsell_TBL_V) - 1);
              fl = fl\<lparr>Munsell_isSaturated := (top < v)\<rparr>;
              (xyz, fl) = Yxy_toXYZ (d0, x, y) fl
          in (XYZ_fromIlluminantC xyz, fl)
        else
          let vi_l = vi_loop v (- 1);
              vi_u = vi_l + 1;
              ((xl, yl), fl) =
                 (if vi_l \<noteq> - 1
                  then (let (x, y, ok) = interp h c vi_l
                        in ((x, y), if \<not> ok then fl\<lparr>Munsell_isSaturated := True\<rparr> else fl))
                  else (Munsell_ILLUMINANT_C, fl\<lparr>Munsell_isSaturated := True\<rparr>));
              (xu, yu, oku) = interp h c vi_u;
              fl = (if \<not> oku then fl\<lparr>Munsell_isSaturated := True\<rparr> else fl);
              v_l = (if vi_l = - 1 then Fin 0 else Munsell_TBL_V ! nat vi_l);
              v_h = Munsell_TBL_V ! nat vi_u;
              r = (v - v_l) / (v_h - v_l);
              x = (xu - xl) * r + xl;
              y = (yu - yl) * r + yl;
              (xyz, fl) = Yxy_toXYZ (d0, x, y) fl
          in (XYZ_fromIlluminantC xyz, fl))"

text \<open>
  \<open>Munsell.toString\<close>. The conversion of a number to its decimal string (template
  literal) is the parameter \<open>numstr\<close>; \<open>Munsell.hueValueToHueName\<close> is the parameter
  \<open>hueName\<close>.
\<close>

definition Munsell_toString ::
  "(jsnum \<Rightarrow> string) \<Rightarrow> (jsnum \<Rightarrow> jsnum \<Rightarrow> string) \<Rightarrow> triple \<Rightarrow> string" where
  "Munsell_toString numstr hueName hvc =
     (case hvc of (h, v, c) \<Rightarrow>
        let vstr = Math_round (v * Fin 10) / Fin 10 in
        if c < toNumber (Munsell_get ''MONO_LIMIT_C'') then ''N '' @ numstr vstr
        else
          let hue = hueName h c;
              cstr = Math_round (c * Fin 10) / Fin 10
          in hue @ '' '' @ numstr vstr @ ''/'' @ numstr cstr)"

section \<open>PCCS to Munsell\<close>

datatype js_error = TypeError

definition PCCS_MAX_HUE :: jsnum where
  "PCCS_MAX_HUE = Fin 24"

definition PCCS_MONO_LIMIT_S :: jsnum where
  "PCCS_MONO_LIMIT_S = Fin 0.01"

definition PCCS_MUNSELL_H :: "real list" where
  "PCCS_MUNSELL_H =
     [96,
      0, 4, 7, 10, 14, 18, 22, 25, 28, 33, 38, 43,
      49, 55, 60, 65, 70, 73, 76, 79, 83, 87, 91, 96, 100]"

definition PCCS_COEFFICIENTS :: "(real \<times> real \<times> real) list" where
  "PCCS_COEFFICIENTS =
     [(0.853642, 0.084379, - 0.002798),
      (1.042805, 0.046437, 0.001607),
      (1.079160, 0.025470, 0.003052),
      (1.039472, 0.054749, - 0.000511),
      (0.925185, 0.050245, 0.000953),
      (0.968557, 0.012537, 0.003375),
      (1.070433, - 0.047359, 0.007385),
      (1.087030, - 0.051075, 0.006526),
      (1.089652, - 0.050206, 0.006056),
      (0.880861, 0.060300, - 0.001280),
      (0.897326, 0.053912, - 0.000860),
      (0.887834, 0.055086, - 0.000847),
      (0.853642, 0.084379, - 0.002798)]"

text \<open>
  A read \<open>PCCS._MUNSELL_H[i]\<close>: outside the array it is \<open>undefined\<close>, which the
  comparison and the arithmetic that follow turn into NaN.
\<close>

definition MUNSELL_H_at :: "int \<Rightarrow> jsnum" where
  "MUNSELL_H_at i =
     (if 0 \<le> i \<and> i < int (length PCCS_MUNSELL_H) then Fin (PCCS_MUNSELL_H ! nat i) else NaN)"

text \<open>\<open>PCCS._calcMunsellH\<close> (accurate).\<close>

definition PCCS_calcMunsellH :: "jsnum \<Rightarrow> jsnum" where
  "PCCS_calcMunsellH h =
     (let h1 = int32_of (Math_floor h);
          h2 = h1 + 1;
          H1 = MUNSELL_H_at h1;
          H2 = MUNSELL_H_at h2;
          H2 = (if H1 > H2 then Fin 100 else H2)
      in H1 + (H2 - H1) * (h - Fin (of_int h1)) / (Fin (of_int h2) - Fin (of_int h1)))"

text \<open>
  \<open>PCCS._calcInterpolatedCoefficients\<close>: reading an element of a row that is
  \<open>undefined\<close> throws. The remainder \<open>hf % 2\<close> has the sign of \<open>hf\<close>; it is only
  compared with 0.
\<close>

definition PCCS_calcInterpolatedCoefficients :: "jsnum \<Rightarrow> js_error + (jsnum \<times> jsnum \<times> jsnum \<times> jsnum)" where
  "PCCS_calcInterpolatedCoefficients h0 =
     (let h = (if PCCS_MAX_HUE < h0 then h0 - PCCS_MAX_HUE else h0);
          hf = int32_of (Math_floor h);
          hf = (if hf mod 2 \<noteq> 0 then hf - 1 else hf);
          hc = hf + 2;
          hc = (if 24 < hc then hc - 24 else hc)
      in if hf div 2 < 0 \<or> int (length PCCS_COEFFICIENTS) \<le> hf div 2 \<or>
            hc div 2 < 0 \<or> int (length PCCS_COEFFICIENTS) \<le> hc div 2
         then Inl TypeError
         else
           (case (PCCS_COEFFICIENTS ! nat (hf div 2), PCCS_COEFFICIENTS ! nat (hc div 2)) of
              ((af0, af1, af2), (ac0, ac1, ac2)) \<Rightarrow>
                let t = (h - Fin (of_int hf)) / (Fin (of_int hc) - Fin (of_int hf))
                in Inr (Fin 0,
                        t * (Fin ac0 - Fin af0) + Fin af0,
                        t * (Fin ac1 - Fin af1) + Fin af1,
                        t * (Fin ac2 - Fin af2) + Fin af2)))"

text \<open>\<open>PCCS._calcMunsellC\<close> (accurate).\<close>

definition PCCS_calcMunsellC :: "jsnum \<Rightarrow> jsnum \<Rightarrow> jsnum \<Rightarrow> js_error + jsnum" where
  "PCCS_calcMunsellC h l s =
     (case PCCS_calcInterpolatedCoefficients h of
        Inl e \<Rightarrow> Inl e
      | Inr (a0, a1, a2, a3) \<Rightarrow>
          let g = Fin 0.81 - Fin 0.24 * Math_sin ((h - Fin 2.6) / Fin 12 * Math_PI)
          in Inr ((a3 * s * s * s + a2 * s * s + a1 * s) * (Fin 1 - Math_exp (- g * l))))"

text \<open>\<open>PCCS._simplyCalcMunsellH\<close> (concise).\<close>

definition PCCS_simplyCalcMunsellH :: "jsnum \<Rightarrow> jsnum" where
  "PCCS_simplyCalcMunsellH h =
     (let x = (h - Fin 1) * Math_PI / Fin 12
      in Fin 100 * x / (Fin 2 * Math_PI) - Fin 1
           + Fin 0.12 * Math_cos x + Fin 0.34 * Math_cos (Fin 2 * x) + Fin 0.4 * Math_cos (Fin 3 * x)
           - Fin 2.7 * Math_sin x + Fin 1.5 * Math_sin (Fin 2 * x) - Fin 0.4 * Math_sin (Fin 3 * x))"

text \<open>\<open>PCCS._simplyCalcMunsellC\<close> (concise).\<close>

definition PCCS_simplyCalcMunsellC :: "jsnum \<Rightarrow> jsnum \<Rightarrow> jsnum \<Rightarrow> js_error + jsnum" where
  "PCCS_simplyCalcMunsellC h l s =
     (let Ct = Fin 12 + Fin 1.7 * Math_sin ((h + Fin 2.2) * Math_PI / Fin 12);
          gt = Fin 0.81 - Fin 0.24 * Math_sin ((h - Fin 2.6) * Math_PI / Fin 12)
      in Inr (Ct * (Fin 0.077 * s + Fin 0.0040 * s * s) * (Fin 1 - Math_exp (- gt * l))))"

text \<open>
  The two members of \<open>PCCS.ConversionMethod\<close>, with the properties of the
  PCCS-to-Munsell direction: a property the object literal does not have is \<open>None\<close>,
  and calling it throws. The source's \<open>CONCISE\<close> stores its chroma function under the
  name \<open>_calcMunsellS\<close>. (Both objects also have \<open>_calcPccsH\<close> and \<open>_calcPccsS\<close>,
  which \<open>PCCS.toMunsell\<close> does not read.)
\<close>

record conversion_method =
  calcMunsellH :: "(jsnum \<Rightarrow> jsnum) option"
  calcMunsellC :: "(jsnum \<Rightarrow> jsnum \<Rightarrow> jsnum \<Rightarrow> js_error + jsnum) option"
  calcMunsellS :: "(jsnum \<Rightarrow> jsnum \<Rightarrow> jsnum \<Rightarrow> js_error + jsnum) option"

definition CONCISE :: conversion_method where
  "CONCISE = \<lparr>calcMunsellH = Some PCCS_simplyCalcMunsellH,
               calcMunsellC = None,
               calcMunsellS = Some PCCS_simplyCalcMunsellC\<rparr>"

definition ACCURATE :: conversion_method where
  "ACCURATE = \<lparr>calcMunsellH = Some PCCS_calcMunsellH,
                calcMunsellC = Some PCCS_calcMunsellC,
                calcMunsellS = None\<rparr>"

text \<open>
  \<open>PCCS.toMunsell\<close>, under the conversion method \<open>cm\<close> (the value of
  \<open>PCCS.conversionMethod\<close>). The two wrap-around tests read \<open>Munsell.MAX_HUE\<close>.
\<close>

definition PCCS_toMunsell :: "conversion_method \<Rightarrow> triple \<Rightarrow> js_error + triple" where
  "PCCS_toMunsell cm hls =
     (case hls of (h, l, s) \<Rightarrow>
        case calcMunsellH cm of
          None \<Rightarrow> Inl TypeError
        | Some fH \<Rightarrow>
            let H = fH h in
            case (if PCCS_MONO_LIMIT_S \<le> s
                  then (case calcMunsellC cm of None \<Rightarrow> Inl TypeError | Some fC \<Rightarrow> fC h l s)
                  else Inr (Fin 0)) of
              Inl e \<Rightarrow> Inl e
            | Inr C \<Rightarrow>
                let H = (if H < Fin 0 then H + toNumber (Munsell_get ''MAX_HUE'') else H);
                    H = (if toNumber (Munsell_get ''MAX_HUE'') \<le> H
                         then H - toNumber (Munsell_get ''MAX_HUE'') else H)
                in Inr (H, l, C))"

text \<open>
  \<open>PCCS._solveEquation\<close>: as \<open>Munsell._y2v\<close>, a \<open>while (true)\<close> left only through the
  tolerance test.
\<close>

partial_function (option) PCCS_solveEquation ::
  "jsnum \<Rightarrow> jsnum \<Rightarrow> jsnum \<Rightarrow> jsnum \<Rightarrow> jsnum \<Rightarrow> jsnum option" where
  "PCCS_solveEquation x a3 a2 a1 a0 =
     (let y = a3 * x * x * x + a2 * x * x + a1 * x + a0;
          yp = Fin 3 * a3 * x * x + Fin 2 * a2 * x + a1;
          x1 = (- y) / yp + x
      in if \<bar>x1 - x\<bar> < Fin 0.001 then Some x else PCCS_solveEquation x1 a3 a2 a1 a0)"

section \<open>The dispatcher\<close>

text \<open>
  The converters that the chains of \<open>convert\<close> are composed of, by name.
\<close>

datatype conv_fn =
    C_RGB_fromLRGB
  | C_LRGB_fromYIQ
  | C_LRGB_fromXYZ
  | C_XYZ_fromYxy
  | C_XYZ_fromLab
  | C_XYZ_fromLMS
  | C_XYZ_fromMunsell
  | C_Munsell_fromPCCS
  | C_LRGB_fromRGB
  | C_YIQ_fromLRGB
  | C_XYZ_fromLRGB
  | C_Yxy_fromXYZ
  | C_Lab_fromXYZ
  | C_LMS_fromXYZ
  | C_Munsell_fromXYZ
  | C_PCCS_fromMunsell

text \<open>
  The \<open>switch\<close> of \<open>convert\<close>: each \<open>case\<close> label with the calls of its
  \<open>return\<close> expression, outermost first.
\<close>

definition conv_table :: "(string \<times> conv_fn list) list" where
  "conv_table =
     [(''yiq-rgb'', [C_RGB_fromLRGB, C_LRGB_fromYIQ]),
      (''lrgb-rgb'', [C_RGB_fromLRGB]),
      (''xyz-rgb'', [C_RGB_fromLRGB, C_LRGB_fromXYZ]),
      (''yxy-rgb'', [C_RGB_fromLRGB, C_LRGB_fromXYZ, C_XYZ_fromYxy]),
      (''lab-rgb'', [C_RGB_fromLRGB, C_LRGB_fromXYZ, C_XYZ_fromLab]),
      (''lms-rgb'', [C_RGB_fromLRGB, C_LRGB_fromXYZ, C_XYZ_fromLMS]),
      (''munsell-rgb'', [C_RGB_fromLRGB, C_LRGB_fromXYZ, C_XYZ_fromMunsell]),
      (''pccs-rgb'', [C_RGB_fromLRGB, C_LRGB_fromXYZ, C_XYZ_fromMunsell, C_Munsell_fromPCCS]),
      (''rgb-lrgb'', [C_LRGB_fromRGB]),
      (''yiq-lrgb'', [C_LRGB_fromYIQ]),
      (''xyz-lrgb'', [C_LRGB_fromXYZ]),
      (''yxy-lrgb'', [C_LRGB_fromXYZ, C_XYZ_fromYxy]),
      (''lab-lrgb'', [C_LRGB_fromXYZ, C_XYZ_fromLab]),
      (''lms-lrgb'', [C_LRGB_fromXYZ, C_XYZ_fromLMS]),
      (''munsell-lrgb'', [C_LRGB_fromXYZ, C_XYZ_fromMunsell]),
      (''pccs-lrgb'', [C_LRGB_fromXYZ, C_XYZ_fromMunsell, C_Munsell_fromPCCS]),
      (''rgb-yiq'', [C_YIQ_fromLRGB, C_LRGB_fromRGB]),
      (''lrgb-yiq'', [C_YIQ_fromLRGB]),
      (''xyz-yiq'', [C_YIQ_fromLRGB, C_LRGB_fromXYZ]),
      (''yxy-yiq'', [C_YIQ_fromLRGB, C_LRGB_fromXYZ, C_XYZ_fromYxy]),
      (''lab-yiq'', [C_YIQ_fromLRGB, C_LRGB_fromXYZ, C_XYZ_fromLab]),
      (''lms-yiq'', [C_YIQ_fromLRGB, C_LRGB_fromXYZ, C_XYZ_fromLMS]),
      (''munsell-yiq'', [C_YIQ_fromLRGB, C_LRGB_fromXYZ, C_XYZ_fromMunsell]),
      (''pccs-yiq'', [C_YIQ_fromLRGB, C_LRGB_fromXYZ, C_XYZ_fromMunsell, C_Munsell_fromPCCS]),
      (''rgb-xyz'', [C_XYZ_fromLRGB, C_LRGB_fromRGB]),
      (''yiq-xyz'', [C_XYZ_fromLRGB, C_LRGB_fromYIQ]),
      (''lrgb-xyz'', [C_XYZ_fromLRGB]),
      (''yxy-xyz'', [C_XYZ_fromYxy]),
      (''lab-xyz'', [C_XYZ_fromLab]),
      (''lms-xyz'', [C_XYZ_fromLMS]),
      (''munsell-xyz'', [C_XYZ_fromMunsell]),
      (''pccs-xyz'', [C_XYZ_fromMunsell, C_Munsell_fromPCCS]),
      (''rgb-yxy'', [C_Yxy_fromXYZ, C_XYZ_fromLRGB, C_LRGB_fromRGB]),
      (''yiq-yxy'', [C_Yxy_fromXYZ, C_XYZ_fromLRGB, C_LRGB_fromYIQ]),
      (''lrgb-yxy'', [C_Yxy_fromXYZ, C_XYZ_fromLRGB]),
      (''xyz-yxy'', [C_Yxy_fromXYZ]),
      (''lab-yxy'', [C_Yxy_fromXYZ, C_XYZ_fromLab]),
      (''lms-yxy'', [C_Yxy_fromXYZ, C_XYZ_fromLMS]),
      (''munsell-yxy'', [C_Yxy_fromXYZ, C_XYZ_fromMunsell]),
      (''pccs-yxy'', [C_Yxy_fromXYZ, C_XYZ_fromMunsell, C_Munsell_fromPCCS]),
      (''rgb-lab'', [C_Lab_fromXYZ, C_XYZ_fromLRGB, C_LRGB_fromRGB]),
      (''yiq-lab'', [C_Lab_fromXYZ, C_XYZ_fromLRGB, C_LRGB_fromYIQ]),
      (''lrgb-lab'', [C_Lab_fromXYZ, C_XYZ_fromLRGB]),
      (''xyz-lab'', [C_Lab_fromXYZ]),
      (''yxy-lab'', [C_Lab_fromXYZ, C_XYZ_fromYxy]),
      (''lms-lab'', [C_Lab_fromXYZ, C_XYZ_fromLMS]),
      (''munsell-lab'', [C_Lab_fromXYZ, C_XYZ_fromMunsell]),
      (''pccs-lab'', [C_Lab_fromXYZ, C_XYZ_fromMunsell, C_Munsell_fromPCCS]),
      (''rgb-lms'', [C_LMS_fromXYZ, C_XYZ_fromLRGB, C_LRGB_fromRGB]),
      (''yiq-lms'', [C_LMS_fromXYZ, C_XYZ_fromLRGB, C_LRGB_fromYIQ]),
      (''lrgb-lms'', [C_LMS_fromXYZ, C_XYZ_fromLRGB]),
      (''xyz-lms'', [C_LMS_fromXYZ]),
      (''yxy-lms'', [C_LMS_fromXYZ, C_XYZ_fromYxy]),
      (''lab-lms'', [C_LMS_fromXYZ, C_XYZ_fromLab]),
      (''munsell-lms'', [C_LMS_fromXYZ, C_XYZ_fromMunsell]),
      (''pccs-lms'', [C_LMS_fromXYZ, C_XYZ_fromMunsell, C_Munsell_fromPCCS]),
      (''rgb-munsell'', [C_Munsell_fromXYZ, C_XYZ_fromLRGB, C_LRGB_fromRGB]),
      (''yiq-munsell'', [C_Munsell_fromXYZ, C_XYZ_fromLRGB, C_LRGB_fromYIQ]),
      (''lrgb-munsell'', [C_Munsell_fromXYZ, C_XYZ_fromLRGB]),
      (''xyz-munsell'', [C_Munsell_fromXYZ]),
      (''yxy-munsell'', [C_Munsell_fromXYZ, C_XYZ_fromYxy]),
      (''lab-munsell'', [C_Munsell_fromXYZ, C_XYZ_fromLab]),
      (''lms-munsell'', [C_Munsell_fromXYZ, C_XYZ_fromLMS]),
      (''pccs-munsell'', [C_Munsell_fromPCCS]),
      (''rgb-pccs'', [C_PCCS_fromMunsell, C_Munsell_fromXYZ, C_XYZ_fromLRGB, C_LRGB_fromRGB]),
      (''yiq-pccs'', [C_PCCS_fromMunsell, C_Munsell_fromXYZ, C_XYZ_fromLRGB, C_LRGB_fromYIQ]),
      (''lrgb-pccs'', [C_PCCS_fromMunsell, C_Munsell_fromXYZ, C_XYZ_fromLRGB]),
      (''xyz-pccs'', [C_PCCS_fromMunsell, C_Munsell_fromXYZ]),
      (''yxy-pccs'', [C_PCCS_fromMunsell, C_Munsell_fromXYZ, C_XYZ_fromYxy]),
      (''lab-pccs'', [C_PCCS_fromMunsell, C_Munsell_fromXYZ, C_XYZ_fromLab]),
      (''lms-pccs'', [C_PCCS_fromMunsell, C_Munsell_fromXYZ, C_XYZ_fromLMS]),
      (''munsell-pccs'', [C_PCCS_fromMunsell])]"

text \<open>
  A chain \<open>[f, g]\<close> stands for \<open>f(g(vs))\<close>. The converters enter through the
  parameter \<open>E\<close>; they act on the array together with whatever state they read and
  assign, and \<open>None\<close> is a call that throws or does not return.
\<close>

fun apply_chain :: "(conv_fn \<Rightarrow> 'a \<Rightarrow> 'a option) \<Rightarrow> conv_fn list \<Rightarrow> 'a \<Rightarrow> 'a option" where
  "apply_chain E [] x = Some x"
| "apply_chain E (f # fs) x = (case apply_chain E fs x of None \<Rightarrow> None | Some y \<Rightarrow> E f y)"

text \<open>\<open>String.prototype.toLowerCase\<close> on ASCII strings, which the space names are.\<close>

definition toLowerCase :: "string \<Rightarrow> string" where
  "toLowerCase s =
     map (\<lambda>c. if 65 \<le> (of_char c :: nat) \<and> (of_char c :: nat) \<le> 90
               then char_of ((of_char c :: nat) + 32) else c) s"

text \<open>\<open>convert(vs, from, to)\<close>; the default \<open>to = 'rgb'\<close> is \<open>convert_default\<close>.\<close>

definition convert :: "(conv_fn \<Rightarrow> 'a \<Rightarrow> 'a option) \<Rightarrow> 'a \<Rightarrow> string \<Rightarrow> string \<Rightarrow> 'a option" where
  "convert E vs from to =
     (let type = toLowerCase from @ ''-'' @ toLowerCase to
      in case map_of conv_table type of
           Some chain \<Rightarrow> apply_chain E chain vs
         | None \<Rightarrow> Some vs)"

definition convert_default :: "(conv_fn \<Rightarrow> 'a \<Rightarrow> 'a option) \<Rightarrow> 'a \<Rightarrow> string \<Rightarrow> 'a option" where
  "convert_default E vs from = convert E vs from ''rgb''"

section \<open>Colour difference\<close>

text \<open>
  \<open>Evaluation.CIEDE2000\<close> on real Lab triples. Every divisor is positive and every
  \<open>Math.atan2\<close> is guarded against the origin, so real arguments give real
  intermediate values and the function is embedded over \<open>real\<close>. \<open>Math.pow(x, 7)\<close> is
  the seventh power.
\<close>

text \<open>\<open>Math.atan2(y, x)\<close> for real arguments.\<close>

definition Math_atan2 :: "real \<Rightarrow> real \<Rightarrow> real" where
  "Math_atan2 y x =
     (if 0 < x then arctan (y / x)
      else if x < 0 then (if 0 \<le> y then arctan (y / x) + pi else arctan (y / x) - pi)
      else if 0 < y then pi / 2
      else if y < 0 then - pi / 2
      else 0)"

text \<open>The local helpers \<open>sq\<close>, \<open>atan\<close>, \<open>sin\<close>, \<open>cos\<close> of \<open>CIEDE2000\<close>.\<close>

definition sq :: "real \<Rightarrow> real" where
  "sq v = v * v"

definition atan_deg :: "real \<Rightarrow> real \<Rightarrow> real" where
  "atan_deg y x = (let v = Math_atan2 y x * 180 / pi in if v < 0 then v + 360 else v)"

definition sin_deg :: "real \<Rightarrow> real" where
  "sin_deg deg = sin (deg * pi / 180)"

definition cos_deg :: "real \<Rightarrow> real" where
  "cos_deg deg = cos (deg * pi / 180)"

definition CIEDE2000 :: "real \<times> real \<times> real \<Rightarrow> real \<times> real \<times> real \<Rightarrow> real" where
  "CIEDE2000 lab1 lab2 =
     (case lab1 of (ls1, as1, bs1) \<Rightarrow> case lab2 of (ls2, as2, bs2) \<Rightarrow>
        let C1 = sqrt (as1 * as1 + bs1 * bs1);
            C2 = sqrt (as2 * as2 + bs2 * bs2);
            Cb = (C1 + C2) / 2;
            G = 0.5 * (1 - sqrt (Cb ^ 7 / (Cb ^ 7 + 25 ^ 7)));
            ap1 = (1 + G) * as1;
            ap2 = (1 + G) * as2;
            Cp1 = sqrt (ap1 * ap1 + bs1 * bs1);
            Cp2 = sqrt (ap2 * ap2 + bs2 * bs2);
            hp1 = (if bs1 = 0 \<and> ap1 = 0 then 0 else atan_deg bs1 ap1);
            hp2 = (if bs2 = 0 \<and> ap2 = 0 then 0 else atan_deg bs2 ap2);
            DLp = ls2 - ls1;
            DCp = Cp2 - Cp1;
            Dhp = (if Cp1 * Cp2 < 1 / 10 ^ 10 then 0
                   else if \<bar>hp2 - hp1\<bar> \<le> 180 then hp2 - hp1
                   else if hp2 - hp1 > 180 then (hp2 - hp1) - 360
                   else if hp2 - hp1 < - 180 then (hp2 - hp1) + 360
                   else 0);
            DHp = 2 * sqrt (Cp1 * Cp2) * sin_deg (Dhp / 2);
            Lbp = (ls1 + ls2) / 2;
            Cbp = (Cp1 + Cp2) / 2;
            hbp = (if Cp1 * Cp2 < 1 / 10 ^ 10 then hp1 + hp2
                   else if \<bar>hp2 - hp1\<bar> \<le> 180 then (hp1 + hp2) / 2
                   else if \<bar>hp2 - hp1\<bar> > 180 \<and> hp1 + hp2 < 360 then (hp1 + hp2 + 360) / 2
                   else if \<bar>hp2 - hp1\<bar> > 180 \<and> hp1 + hp2 \<ge> 360 then (hp1 + hp2 - 360) / 2
                   else 0);
            T = 1 - 0.17 * cos_deg (hbp - 30) + 0.24 * cos_deg (2 * hbp)
                  + 0.32 * cos_deg (3 * hbp + 6) - 0.2 * cos_deg (4 * hbp - 63);
            Dth = 30 * exp (- sq ((hbp - 275) / 25));
            RC = 2 * sqrt (Cbp ^ 7 / (Cbp ^ 7 + 25 ^ 7));
            SL = 1 + 0.015 * sq (Lbp - 50) / sqrt (20 + sq (Lbp - 50));
            SC = 1 + 0.045 * Cbp;
            SH = 1 + 0.015 * Cbp * T;
            RT = - sin_deg (2 * Dth) * RC;
            kL = 1; kC = 1; kH = 1;
            DE = sqrt (sq (DLp / (kL * SL)) + sq (DCp / (kC * SC)) + sq (DHp / (kH * SH))
                       + RT * (DCp / (kC * SC)) * (DHp / (kH * SH)))
        in DE)"

text \<open>
  For the proofs, the bound expressions of \<open>CIEDE2000\<close> as functions of what they
  depend on: the hue difference, the mean hue, and the final formula.
\<close>

definition ciede_Dhp :: "real \<Rightarrow> real \<Rightarrow> real \<Rightarrow> real \<Rightarrow> real" where
  "ciede_Dhp Cp1 Cp2 hp1 hp2 =
     (if Cp1 * Cp2 < 1 / 10 ^ 10 then 0
      else if \<bar>hp2 - hp1\<bar> \<le> 180 then hp2 - hp1
      else if hp2 - hp1 > 180 then (hp2 - hp1) - 360
      else if hp2 - hp1 < - 180 then (hp2 - hp1) + 360
      else 0)"

definition ciede_hbp :: "real \<Rightarrow> real \<Rightarrow> real \<Rightarrow> real \<Rightarrow> real" where
  "ciede_hbp Cp1 Cp2 hp1 hp2 =
     (if Cp1 * Cp2 < 1 / 10 ^ 10 then hp1 + hp2
      else if \<bar>hp2 - hp1\<bar> \<le> 180 then (hp1 + hp2) / 2
      else if \<bar>hp2 - hp1\<bar> > 180 \<and> hp1 + hp2 < 360 then (hp1 + hp2 + 360) / 2
      else if \<bar>hp2 - hp1\<bar> > 180 \<and> hp1 + hp2 \<ge> 360 then (hp1 + hp2 - 360) / 2
      else 0)"

definition ciede_DE :: "real \<Rightarrow> real \<Rightarrow> real \<Rightarrow> real \<Rightarrow> real \<Rightarrow> real \<Rightarrow> real" where
  "ciede_DE DLp DCp DHp Lbp Cbp hbp =
     (let T = 1 - 0.17 * cos_deg (hbp - 30) + 0.24 * cos_deg (2 * hbp)
                + 0.32 * cos_deg (3 * hbp + 6) - 0.2 * cos_deg (4 * hbp - 63);
          Dth = 30 * exp (- sq ((hbp - 275) / 25));
          RC = 2 * sqrt (Cbp ^ 7 / (Cbp ^ 7 + 25 ^ 7));
          SL = 1 + 0.015 * sq (Lbp - 50) / sqrt (20 + sq (Lbp - 50));
          SC = 1 + 0.045 * Cbp;
          SH = 1 + 0.015 * Cbp * T;
          RT = - sin_deg (2 * Dth) * RC;
          kL = 1; kC = 1; kH = 1
      in sqrt (sq (DLp / (kL * SL)) + sq (DCp / (kC * SC)) + sq (DHp / (kH * SH))
               + RT * (DCp / (kC * SC)) * (DHp / (kH * SH))))"

definition ciede_G :: "real \<Rightarrow> real \<Rightarrow> real \<Rightarrow> real \<Rightarrow> real" where
  "ciede_G as1 bs1 as2 bs2 =
     (let C1 = sqrt (as1 * as1 + bs1 * bs1);
          C2 = sqrt (as2 * as2 + bs2 * bs2);
          Cb = (C1 + C2) / 2
      in 0.5 * (1 - sqrt (Cb ^ 7 / (Cb ^ 7 + 25 ^ 7))))"

definition ciede_Cp :: "real \<Rightarrow> real \<Rightarrow> real \<Rightarrow> real" where
  "ciede_Cp G a b = (let ap = (1 + G) * a in sqrt (ap * ap + b * b))"

definition ciede_hp :: "real \<Rightarrow> real \<Rightarrow> real \<Rightarrow> real" where
  "ciede_hp G a b = (let ap = (1 + G) * a in if b = 0 \<and> ap = 0 then 0 else atan_deg b ap)"

section \<open>Categorical colour\<close>

text \<open>
  \<open>Evaluation.categoryOfYxy\<close> on a triple of reals. \<open>Math.pow(x, 0.9)\<close> is NaN for
  a negative \<open>x\<close>, which is \<open>None\<close> here; \<open>Number.MAX_VALUE\<close> is
  \<open>2^1024 - 2^971\<close>.
\<close>

definition CATEGORICAL_COLORS :: "string list" where
  "CATEGORICAL_COLORS =
     [''white'', ''black'', ''red'', ''green'', ''yellow'', ''blue'', ''brown'', ''purple'', ''pink'', ''orange'', ''gray'']"

definition Y_TO_LUM :: real where
  "Y_TO_LUM = 60"

definition LUM_TABLE :: "nat list" where
  "LUM_TABLE = [2, 5, 10, 20, 30, 40]"

definition MAX_VALUE :: real where
  "MAX_VALUE = 2 ^ 1024 - 2 ^ 971"

definition CC_TABLE :: "(nat \<times> string) list" where
  "CC_TABLE =
     [(2, ''...................5.................557................557...............55777.............55.777............55577777...........55577777..........5557777777........55511..6767.......333.116666666......3331.666666.......3333116666........33331116...........33333.............3333..............33...................................................................................''),
      (5, ''5..................55................557...............55777..............55777.............5577777...........555777777.........5557777777.........55a77777777.......555aa77777727.....555aaa66666666....3353aa666666666...33333a6666666......33333366666.......333333366.........33333333..........333333.............3333..............33................3..............................''),
      (10, ''5..................57................557...............55777..............557777............5577777...........555777777.........55577777788.......555aa777..88.......555aa77...222.....555aa.68668.222...5333aa666666999...33333a66666699....3333333666666......3333333666........333333336.........3333333...........333333.............333...............33................3............''),
      (20, ''.......................................77..............55777..............557777............557777............557777788.........55577778888.......555577.88888.......555.78888888......555aa.8888882.....5533.a888999999...33333366999999....3333333669999......33333334.99.......333333344.........33333333..........333333............33333..............33................3............''),
      (30, ''..........................................................................5.77..............55777.............55777.............55577.8...........55557788...........55557888..........555508888.........3535348888........33333449999.......333333449999.......33333344449.......333333444.........33333334..........333333............33333..............333...............3............''),
      (40, ''..............................................................................................77..............55577.............55577.............555578.............5550.8............5555088...........5333008...........35333449..........333333444..........333334444.........333333444.........33333344..........3333333...........33333..............333...............3............'')]"

definition Math_pow_09 :: "real \<Rightarrow> real option" where
  "Math_pow_09 x = (if x < 0 then None else Some (x powr 0.9))"

text \<open>
  The body of the first loop, for the table entry \<open>l\<close> and the variables
  \<open>(diff, clum)\<close>: with a NaN \<open>lum\<close> the distance is NaN and the test fails.
\<close>

definition lum_step :: "real option \<Rightarrow> nat \<Rightarrow> real \<times> nat \<Rightarrow> real \<times> nat" where
  "lum_step lum l s =
     (case s of (diff, clum) \<Rightarrow>
        case lum of
          None \<Rightarrow> (diff, clum)
        | Some x \<Rightarrow> let d = \<bar>x - real l\<bar> in if d < diff then (d, l) else (diff, clum))"

text \<open>
  The variable \<open>cc\<close> starts as the number 1 and is then assigned characters of the
  table; a read past the end of the string is \<open>undefined\<close>.
\<close>

datatype cc_val = CNum nat | CChr char | CUndef

definition char_at :: "string \<Rightarrow> nat \<Rightarrow> cc_val" where
  "char_at t i = (if i < length t then CChr (t ! i) else CUndef)"

text \<open>The body of the second loop, for the index \<open>i\<close> and the variables \<open>(dis, cc)\<close>.\<close>

definition cell_step :: "string \<Rightarrow> real \<Rightarrow> real \<Rightarrow> nat \<Rightarrow> real \<times> cc_val \<Rightarrow> real \<times> cc_val" where
  "cell_step t sx sy i s =
     (case s of (dis, cc) \<Rightarrow>
        if char_at t i = CChr CHR ''.'' then (dis, cc)
        else
          let x = real ((i mod 18) * 25 + 150);
              y = real ((i div 18) * 25 + 75);
              d = sqrt ((sx - x) * (sx - x) + (sy - y) * (sy - y))
          in if d < dis then (d, char_at t i) else (dis, cc))"

text \<open>
  \<open>parseInt\<close> on the values \<open>cc\<close> can hold: the number is converted to its string,
  a digit character gives its value, anything else gives NaN (\<open>None\<close>).
\<close>

definition parseInt :: "cc_val \<Rightarrow> nat option" where
  "parseInt cc =
     (case cc of
        CNum n \<Rightarrow> Some n
      | CChr c \<Rightarrow> (if c \<in> set ''0123456789'' then Some (of_char c - 48) else None)
      | CUndef \<Rightarrow> None)"

text \<open>
  What a call does: it returns a name, returns \<open>undefined\<close> (an index that is NaN or
  outside \<open>CATEGORICAL_COLORS\<close>), or throws (indexing the \<open>undefined\<close> table
  \<open>_CC_TABLE[clum]\<close>).
\<close>

datatype cat_result = Name string | ResultUndefined | ThrowsTypeError

definition categoryOfYxy :: "real \<times> real \<times> real \<Rightarrow> cat_result" where
  "categoryOfYxy yxy =
     (case yxy of (y, sx, sy) \<Rightarrow>
        let lum = Math_pow_09 (y * Y_TO_LUM);
            (diff, clum) = fold (lum_step lum) LUM_TABLE (MAX_VALUE, 0)
        in case map_of CC_TABLE clum of
             None \<Rightarrow> ThrowsTypeError
           | Some t \<Rightarrow>
               let sx = sx * 1000;
                   sy = sy * 1000;
                   (dis, cc) = fold (cell_step t sx sy) [0 ..< 18 * 21] (MAX_VALUE, CNum 1);
                   ci = (if cc = CChr CHR ''a'' then Some 10 else parseInt cc)
               in case ci of
                    None \<Rightarrow> ResultUndefined
                  | Some i \<Rightarrow>
                      if i < length CATEGORICAL_COLORS then Name (CATEGORICAL_COLORS ! i)
                      else ResultUndefined)"

text \<open>
  For the proofs: a table string has the 378 cells of the grid and only the characters
  that stand for an empty cell or a colour index; and the values \<open>cc\<close> can hold
  while the second loop runs over such a table.
\<close>

definition valid_table :: "string \<Rightarrow> bool" where
  "valid_table t = (length t = 378 \<and> list_all (\<lambda>c. c \<in> set ''.0123456789a'') t)"

definition good_cc :: "cc_val \<Rightarrow> bool" where
  "good_cc cc = (cc = CNum 1 \<or> (\<exists>c. cc = CChr c \<and> c \<in> set ''0123456789a''))"

section \<open>Arithmetic on finite numbers\<close>

lemma finite_js_cases: "finite_js a \<Longrightarrow> a = NZero \<or> a = Fin (val a)"
  by (cases a) simp_all

lemma finite_js_not_special [simp]:
  "finite_js a \<Longrightarrow> a \<noteq> NaN" "finite_js a \<Longrightarrow> \<not> is_inf a"
  by (cases a; simp add: is_inf_def)+

lemma is_zero_val: "finite_js a \<Longrightarrow> is_zero a = (val a = 0)"
  by (cases a) (simp_all add: is_zero_def)

lemma mk_fin_fin [simp]: "finite_js (mk_fin s r)" "val (mk_fin s r) = r"
  by (simp_all add: mk_fin_def signed_zero_def)

lemma plus_fin:
  assumes "finite_js a" "finite_js b"
  shows "finite_js (a + b)" "val (a + b) = val a + val b"
  using assms by (simp_all add: plus_jsnum_def)

lemma uminus_fin:
  assumes "finite_js a"
  shows "finite_js (- a)" "val (- a) = - val a"
  using assms by (cases a; simp)+

lemma minus_fin:
  assumes "finite_js a" "finite_js b"
  shows "finite_js (a - b)" "val (a - b) = val a - val b"
  using assms by (simp_all add: minus_jsnum_def plus_fin uminus_fin)

lemma times_fin:
  assumes "finite_js a" "finite_js b"
  shows "finite_js (a * b)" "val (a * b) = val a * val b"
  using assms by (simp_all add: times_jsnum_def)

lemma divide_fin:
  assumes "finite_js a" "finite_js b" "val b \<noteq> 0"
  shows "finite_js (a / b)" "val (a / b) = val a / val b"
  using assms by (simp_all add: divide_jsnum_def is_zero_val)

lemma abs_fin:
  assumes "finite_js a"
  shows "finite_js \<bar>a\<bar>" "val \<bar>a\<bar> = \<bar>val a\<bar>"
  using assms by (cases a; simp)+

lemma less_fin: "finite_js a \<Longrightarrow> finite_js b \<Longrightarrow> (a < b) = (val a < val b)"
  by (cases a; cases b; simp add: less_jsnum_def)

lemma less_eq_fin: "finite_js a \<Longrightarrow> finite_js b \<Longrightarrow> (a \<le> b) = (val a \<le> val b)"
  by (cases a; cases b; simp add: less_eq_jsnum_def)

lemma js_eq_fin: "finite_js a \<Longrightarrow> finite_js b \<Longrightarrow> js_eq a b = (val a = val b)"
  by (cases a; cases b; auto simp add: js_eq_def is_zero_def)

lemmas fin_simps =
  plus_fin minus_fin times_fin divide_fin uminus_fin abs_fin less_fin less_eq_fin js_eq_fin

section \<open>Yxy: round trip and degenerate path\<close>

lemma yxy_algebra:
  fixes x y z :: real
  assumes "x + y + z \<noteq> 0" "y \<noteq> 0"
  shows "(1 - x / (x + y + z) - y / (x + y + z)) * y / (y / (x + y + z)) = z"
proof -
  define s where "s = x + y + z"
  have s0: "s \<noteq> 0" using assms by (simp add: s_def)
  have "1 - x / s - y / s = (s - x - y) / s"
    using s0 by (simp add: diff_divide_distrib)
  also have "\<dots> = z / s" by (simp add: s_def)
  finally have "(1 - x / s - y / s) * y / (y / s) = z / s * y / (y / s)" by simp
  also have "\<dots> = z" using s0 assms(2) by simp
  finally show ?thesis by (simp add: s_def)
qed

lemma Yxy_back_nondegenerate:
  assumes "x + y + z \<noteq> 0" "y \<noteq> 0"
  shows "triple_eq (fst (Yxy_toXYZ (Yxy_fromXYZ (Fin x, Fin y, Fin z)) fl)) (Fin x, Fin y, Fin z)"
proof -
  define s where "s = Fin x + Fin y + Fin z"
  have fs: "finite_js s" and vs: "val s = x + y + z"
    by (simp_all add: s_def plus_fin)
  have ne: "\<not> js_eq s (Fin 0)" using fs vs assms by (simp add: js_eq_fin)
  define sx where "sx = Fin x / s"
  define sy where "sy = Fin y / s"
  have fsx: "finite_js sx" and vsx: "val sx = x / (x + y + z)"
    using fs vs assms by (simp_all add: sx_def divide_fin)
  have fsy: "finite_js sy" and vsy: "val sy = y / (x + y + z)"
    using fs vs assms by (simp_all add: sy_def divide_fin)
  have vsy0: "val sy \<noteq> 0" using vsy assms by simp
  have frm: "Yxy_fromXYZ (Fin x, Fin y, Fin z) = (Fin y, sx, sy)"
    using ne by (simp add: Yxy_fromXYZ_def Let_def s_def sx_def sy_def)
  define d0 where "d0 = sx * Fin y / sy"
  have fd0: "finite_js d0" and vd0: "val d0 = x"
    using fsx fsy vsx vsy vsy0 assms by (simp_all add: d0_def divide_fin times_fin)
  define d2 where "d2 = (Fin 1 - sx - sy) * Fin y / sy"
  have fd2: "finite_js d2" and vd2': "val d2 = (1 - val sx - val sy) * y / val sy"
    using fsx fsy vsy0 by (simp_all add: d2_def divide_fin times_fin minus_fin)
  have "(1 - x / (x + y + z) - y / (x + y + z)) * y / (y / (x + y + z)) = z"
    using assms by (rule yxy_algebra)
  then have vd2: "val d2 = z" by (simp add: vd2' vsx vsy)
  have "fst (Yxy_toXYZ (Fin y, sx, sy) fl) = (d0, Fin y, d2)"
    using fd0 by (simp add: Yxy_toXYZ_def Let_def isNaN_def d0_def d2_def split: prod.splits)
  then show ?thesis
    using fd0 vd0 fd2 vd2 by (simp add: frm triple_eq_def js_eq_fin)
qed

lemma Yxy_white:
  assumes "x + y + z = 0"
  shows "Yxy_fromXYZ (Fin x, Fin y, Fin z) = (Fin y, Fin 0.31273, Fin 0.32902)"
proof -
  have "finite_js (Fin x + Fin y + Fin z)" "val (Fin x + Fin y + Fin z) = 0"
    using assms by (simp_all add: plus_fin)
  then have "js_eq (Fin x + Fin y + Fin z) (Fin 0)" by (simp add: js_eq_fin)
  then show ?thesis by (simp add: Yxy_fromXYZ_def)
qed


lemma zero_quotient_NaN: "is_zero y \<Longrightarrow> is_zero sy \<Longrightarrow> isNaN (sx * y / sy)"
  by (cases sx)
    (auto simp add: is_zero_def isNaN_def times_jsnum_def divide_jsnum_def is_inf_def
      mk_fin_def signed_zero_def)

lemma Yxy_toXYZ_NaN:
  "isNaN (sx * y / sy) \<Longrightarrow>
     Yxy_toXYZ (y, sx, sy) fl = ((Fin 0, Fin 0, Fin 0), fl\<lparr>Yxy_isSaturated := False\<rparr>)"
  by (simp add: Yxy_toXYZ_def)

lemma Yxy_back_dark:
  assumes "x + z \<noteq> 0"
  shows "fst (Yxy_toXYZ (Yxy_fromXYZ (Fin x, Fin 0, Fin z)) fl) = (Fin 0, Fin 0, Fin 0)"
proof -
  define s where "s = Fin x + Fin 0 + Fin z"
  have fs: "finite_js s" and vs: "val s = x + z"
    by (simp_all add: s_def plus_fin)
  have ne: "\<not> js_eq s (Fin 0)" using fs vs assms by (simp add: js_eq_fin)
  have frm: "Yxy_fromXYZ (Fin x, Fin 0, Fin z) = (Fin 0, Fin x / s, Fin 0 / s)"
    using ne by (simp add: Yxy_fromXYZ_def Let_def s_def)
  have "finite_js (Fin 0 / s)" "val (Fin 0 / s) = 0"
    using fs vs assms by (simp_all add: divide_fin)
  then have "is_zero (Fin 0 / s)" by (simp add: is_zero_val)
  moreover have "is_zero (Fin 0)" by (simp add: is_zero_def)
  ultimately have "isNaN (Fin x / s * Fin 0 / (Fin 0 / s))"
    by (rule zero_quotient_NaN [rotated])
  then show ?thesis by (simp add: frm Yxy_toXYZ_NaN)
qed

text \<open>
  C3, as the code has it. The round trip \<open>Yxy.toXYZ(Yxy.fromXYZ([x, y, z]))\<close> gives
  back \<open>[x, y, z]\<close> (under \<open>===\<close>, component by component) for all reals with
  \<open>x + y + z \<noteq> 0\<close> and \<open>y \<noteq> 0\<close>. When \<open>y = 0\<close> and \<open>x + z \<noteq> 0\<close> the
  chromaticity \<open>y / sum\<close> is zero, the quotient in \<open>Yxy.toXYZ\<close> is \<open>0 / 0\<close>, and the NaN
  guard returns \<open>[0, 0, 0]\<close>. When \<open>x + y + z = 0\<close>, \<open>Yxy.fromXYZ\<close> returns
  \<open>[y, 0.31273, 0.32902]\<close>.
\<close>

theorem Yxy_roundtrip:
  "(x + y + z \<noteq> 0 \<and> y \<noteq> 0 \<longrightarrow>
      triple_eq (fst (Yxy_toXYZ (Yxy_fromXYZ (Fin x, Fin y, Fin z)) fl)) (Fin x, Fin y, Fin z)) \<and>
   (x + z \<noteq> 0 \<longrightarrow>
      fst (Yxy_toXYZ (Yxy_fromXYZ (Fin x, Fin 0, Fin z)) fl) = (Fin 0, Fin 0, Fin 0)) \<and>
   (x + y + z = 0 \<longrightarrow>
      Yxy_fromXYZ (Fin x, Fin y, Fin z) = (Fin y, Fin 0.31273, Fin 0.32902))"
  using Yxy_back_nondegenerate [of x y z fl] Yxy_back_dark [of x z fl]
    Yxy_white [of x y z]
  by blast

theorem Yxy_roundtrip_witness:
  "triple_eq (fst (Yxy_toXYZ (Yxy_fromXYZ (Fin 1, Fin 2, Fin 3)) flags0)) (Fin 1, Fin 2, Fin 3) \<and>
   fst (Yxy_toXYZ (Yxy_fromXYZ (Fin 1, Fin 0, Fin 3)) flags0) = (Fin 0, Fin 0, Fin 0) \<and>
   Yxy_fromXYZ (Fin 1, Fin (- 1), Fin 0) = (Fin (- 1), Fin 0.31273, Fin 0.32902)"
  using Yxy_roundtrip [of 1 2 3 flags0] Yxy_roundtrip [of 1 0 3 flags0]
    Yxy_roundtrip [of 1 "- 1" 0 flags0]
  by simp

text \<open>
  C3 as stated fails at the XYZ triple \<open>[1, 0, 0]\<close>: its sum is not zero, and the round
  trip returns \<open>[0, 0, 0]\<close>.
\<close>

theorem Yxy_roundtrip_counterexample:
  "(1::real) + 0 + 0 \<noteq> 0 \<and>
   \<not> triple_eq (fst (Yxy_toXYZ (Yxy_fromXYZ (Fin 1, Fin 0, Fin 0)) flags0)) (Fin 1, Fin 0, Fin 0)"
proof -
  have "fst (Yxy_toXYZ (Yxy_fromXYZ (Fin 1, Fin 0, Fin 0)) flags0) = (Fin 0, Fin 0, Fin 0)"
    by (rule Yxy_back_dark) simp
  then show ?thesis by (simp add: triple_eq_def js_eq_def is_zero_def)
qed

text \<open>
  C10. Whenever the quotient \<open>sx * Y / sy\<close> computed first by \<open>Yxy.toXYZ\<close> is NaN, the
  function returns \<open>[0, 0, 0]\<close> and sets \<open>Yxy.isSaturated\<close> to false; and the quotient is
  NaN whenever \<open>Y\<close> and \<open>sy\<close> are both zero (of either sign), whatever \<open>sx\<close> is.
\<close>

theorem Yxy_toXYZ_degenerate:
  "(isNaN (sx * y / sy) \<longrightarrow>
      Yxy_toXYZ (y, sx, sy) fl = ((Fin 0, Fin 0, Fin 0), fl\<lparr>Yxy_isSaturated := False\<rparr>)) \<and>
   (is_zero y \<and> is_zero sy \<longrightarrow> isNaN (sx * y / sy))"
  using Yxy_toXYZ_NaN [of sx y sy fl] zero_quotient_NaN [of y sy sx] by blast

theorem Yxy_toXYZ_degenerate_witness:
  "isNaN (Fin 0.3 * Fin 0 / NZero) \<and>
   Yxy_toXYZ (Fin 0, Fin 0.3, NZero) flags0
     = ((Fin 0, Fin 0, Fin 0), flags0\<lparr>Yxy_isSaturated := False\<rparr>)"
  using Yxy_toXYZ_degenerate [of "Fin 0.3" "Fin 0" NZero flags0]
  by (simp add: is_zero_def)
section \<open>sRGB: the gamma pair and the saturation flag\<close>

lemma powr_512_pow12:
  assumes "0 < (a::real)"
  shows "(a powr (1 / 2.4)) ^ 12 = a ^ 5"
proof -
  have "(a powr (1 / 2.4)) ^ 12 = (a powr (1 / 2.4)) powr 12"
    by (simp add: powr_numeral assms)
  also have "\<dots> = a powr 5" by (simp add: powr_powr)
  also have "\<dots> = a ^ 5" using assms by (simp add: powr_numeral)
  finally show ?thesis .
qed

lemma powr_512_lower:
  assumes "0 < (a::real)" "l ^ 12 \<le> a ^ 5"
  shows "l \<le> a powr (1 / 2.4)"
proof -
  have "l ^ Suc 11 \<le> (a powr (1 / 2.4)) ^ Suc 11"
    using assms powr_512_pow12 [of a] by simp
  then show ?thesis by (rule power_le_imp_le_base) simp
qed

lemma powr_512_upper:
  assumes "0 < (a::real)" "0 \<le> u" "a ^ 5 < u ^ 12"
  shows "a powr (1 / 2.4) < u"
proof -
  have "(a powr (1 / 2.4)) ^ 12 < u ^ 12"
    using assms powr_512_pow12 [of a] by simp
  then show ?thesis using assms(2) by (rule power_less_imp_less_base)
qed

lemma powr_24_pow5:
  assumes "0 < (b::real)"
  shows "(b powr 2.4) ^ 5 = b ^ 12"
proof -
  have "(b powr 2.4) ^ 5 = (b powr 2.4) powr 5"
    by (simp add: powr_numeral assms)
  also have "\<dots> = b powr 12" by (simp add: powr_powr)
  also have "\<dots> = b ^ 12" using assms by (simp add: powr_numeral)
  finally show ?thesis .
qed

lemma powr_24_upper:
  assumes "0 < (b::real)" "0 \<le> u" "b ^ 12 \<le> u ^ 5"
  shows "b powr 2.4 \<le> u"
proof -
  have "(b powr 2.4) ^ Suc 4 \<le> u ^ Suc 4"
    using assms powr_24_pow5 [of b] by simp
  then show ?thesis using assms(2) by (rule power_le_imp_le_base)
qed

lemma powr_24_lower:
  assumes "0 < (b::real)" "l ^ 5 < b ^ 12"
  shows "l < b powr 2.4"
proof -
  have "l ^ 5 < (b powr 2.4) ^ 5"
    using assms powr_24_pow5 [of b] by simp
  then show ?thesis by (rule power_less_imp_less_base) simp
qed


lemma toInt32_small: "0 \<le> x \<Longrightarrow> x < 2 ^ 31 \<Longrightarrow> toInt32 x = \<lfloor>x\<rfloor>"
proof -
  assume a: "0 \<le> x" "x < 2 ^ 31"
  have "0 \<le> \<lfloor>x\<rfloor>" using a by simp
  moreover have "\<lfloor>x\<rfloor> < 2 ^ 31" using a by (simp add: floor_less_iff)
  ultimately show ?thesis using a by (simp add: toInt32_def Let_def)
qed

lemma invFunc_2: "toInt32 (RGB_invFunc 2 * 255) = 345"
proof -
  have l: "(345 / 255 + 0.055) / 1.055 \<le> (2::real) powr (1 / 2.4)"
    by (rule powr_512_lower) (simp_all add: power_divide divide_simps)
  have u: "(2::real) powr (1 / 2.4) < (346 / 255 + 0.055) / 1.055"
    by (rule powr_512_upper) (simp_all add: power_divide divide_simps)
  have v: "RGB_invFunc 2 * 255 = (2 powr (1 / 2.4) * 1.055 - 0.055) * 255"
    by (simp add: RGB_invFunc_def)
  have "345 \<le> RGB_invFunc 2 * 255" "RGB_invFunc 2 * 255 < 346"
    unfolding v using l u by (simp_all add: field_simps)
  then have "\<lfloor>RGB_invFunc 2 * 255\<rfloor> = 345" "0 \<le> RGB_invFunc 2 * 255" "RGB_invFunc 2 * 255 < 2 ^ 31"
    by (simp_all add: floor_eq_iff)
  then show ?thesis by (simp add: toInt32_small)
qed

lemma invFunc_half: "toInt32 (RGB_invFunc 0.5 * 255) = 187"
proof -
  have l: "(187 / 255 + 0.055) / 1.055 \<le> (0.5::real) powr (1 / 2.4)"
    by (rule powr_512_lower) (simp_all add: power_divide divide_simps)
  have u: "(0.5::real) powr (1 / 2.4) < (188 / 255 + 0.055) / 1.055"
    by (rule powr_512_upper) (simp_all add: power_divide divide_simps)
  have v: "RGB_invFunc 0.5 * 255 = (0.5 powr (1 / 2.4) * 1.055 - 0.055) * 255"
    by (simp add: RGB_invFunc_def)
  have "187 \<le> RGB_invFunc 0.5 * 255" "RGB_invFunc 0.5 * 255 < 188"
    unfolding v using l u by (simp_all add: field_simps)
  then have "\<lfloor>RGB_invFunc 0.5 * 255\<rfloor> = 187" "0 \<le> RGB_invFunc 0.5 * 255" "RGB_invFunc 0.5 * 255 < 2 ^ 31"
    by (simp_all add: floor_eq_iff)
  then show ?thesis by (simp add: toInt32_small)
qed

lemma checkRange_flag:
  "snd (RGB_checkRange (a, b, c) 0 255) = (a < 0 \<or> 255 < a \<or> b < 0 \<or> 255 < b \<or> c < 0 \<or> 255 < c)"
  by (simp add: RGB_checkRange_def Let_def)

lemma checkRange_value:
  "fst (RGB_checkRange (a, b, c) 0 255) = (max 0 (min 255 a), max 0 (min 255 b), max 0 (min 255 c))"
  by (simp add: RGB_checkRange_def Let_def max_def min_def)

lemma fromLRGB_eq:
  "RGB_fromLRGB (lr, lg, lb) fl =
     (fst (RGB_checkRange (toInt32 (RGB_invFunc lr * 255), toInt32 (RGB_invFunc lg * 255),
                           toInt32 (RGB_invFunc lb * 255)) 0 255),
      fl\<lparr>RGB_isSaturated :=
        snd (RGB_checkRange (toInt32 (RGB_invFunc lr * 255), toInt32 (RGB_invFunc lg * 255),
                             toInt32 (RGB_invFunc lb * 255)) 0 255)\<rparr>)"
  by (simp add: RGB_fromLRGB_def Let_def split: prod.splits)

text \<open>
  C6. \<open>RGB.fromLRGB([2, 2, 2])\<close> returns \<open>[255, 255, 255]\<close> (each channel is 345 before
  clamping) and leaves \<open>RGB.isSaturated\<close> true; \<open>RGB.fromLRGB([0.5, 0.5, 0.5])\<close> returns
  \<open>[187, 187, 187]\<close> and leaves it false; and in every call the flag is true exactly when
  one of the three truncated channels lay outside \<open>[0, 255]\<close>, the returned channels
  being the clamped ones.
\<close>

theorem RGB_fromLRGB_saturation:
  "RGB_fromLRGB (2, 2, 2) fl = ((255, 255, 255), fl\<lparr>RGB_isSaturated := True\<rparr>) \<and>
   RGB_fromLRGB (0.5, 0.5, 0.5) fl = ((187, 187, 187), fl\<lparr>RGB_isSaturated := False\<rparr>) \<and>
   RGB_isSaturated (snd (RGB_fromLRGB (lr, lg, lb) fl)) =
     (toInt32 (RGB_invFunc lr * 255) < 0 \<or> 255 < toInt32 (RGB_invFunc lr * 255) \<or>
      toInt32 (RGB_invFunc lg * 255) < 0 \<or> 255 < toInt32 (RGB_invFunc lg * 255) \<or>
      toInt32 (RGB_invFunc lb * 255) < 0 \<or> 255 < toInt32 (RGB_invFunc lb * 255)) \<and>
   fst (RGB_fromLRGB (lr, lg, lb) fl) =
     (max 0 (min 255 (toInt32 (RGB_invFunc lr * 255))),
      max 0 (min 255 (toInt32 (RGB_invFunc lg * 255))),
      max 0 (min 255 (toInt32 (RGB_invFunc lb * 255))))"
proof -
  have "RGB_fromLRGB (2, 2, 2) fl = ((255, 255, 255), fl\<lparr>RGB_isSaturated := True\<rparr>)"
    by (simp add: fromLRGB_eq invFunc_2 checkRange_flag checkRange_value)
  moreover have "RGB_fromLRGB (0.5, 0.5, 0.5) fl = ((187, 187, 187), fl\<lparr>RGB_isSaturated := False\<rparr>)"
    using invFunc_half by (simp add: fromLRGB_eq checkRange_flag checkRange_value)
  ultimately show ?thesis
    by (simp add: fromLRGB_eq checkRange_flag checkRange_value)
qed

lemma func_at_threshold: "RGB_func 0.03928 \<le> 0.00304"
proof -
  have "((0.03928 + 0.055) / 1.055 :: real) powr 2.4 \<le> 0.00304"
    by (rule powr_24_upper) (simp_all add: power_divide divide_simps)
  then show ?thesis by (simp add: RGB_func_def)
qed

lemma invFunc_func_low:
  assumes "v \<le> 0.0392768"
  shows "RGB_invFunc (RGB_func v) = v"
proof -
  have "v < 0.03928" using assms by simp
  then have f: "RGB_func v = v / 12.92" by (simp add: RGB_func_def)
  have "v / 12.92 \<le> 0.00304" using assms by simp
  then show ?thesis by (simp add: f RGB_invFunc_def)
qed

lemma powr_512_lower_strict:
  assumes "0 < (a::real)" "l ^ 12 < a ^ 5"
  shows "l < a powr (1 / 2.4)"
proof -
  have "l ^ 12 < (a powr (1 / 2.4)) ^ 12"
    using assms powr_512_pow12 [of a] by simp
  then show ?thesis by (rule power_less_imp_less_base) simp
qed

lemma junction_bounds:
  "0.039286 < (0.00304::real) powr (1 / 2.4) * 1.055 - 0.055"
  "(0.00304::real) powr (1 / 2.4) * 1.055 - 0.055 < 0.039287"
proof -
  have l: "(0.039286 + 0.055) / 1.055 < (0.00304::real) powr (1 / 2.4)"
    by (rule powr_512_lower_strict) (simp_all add: power_divide divide_simps)
  have u: "(0.00304::real) powr (1 / 2.4) < (0.039287 + 0.055) / 1.055"
    by (rule powr_512_upper) (simp_all add: power_divide divide_simps)
  show "0.039286 < (0.00304::real) powr (1 / 2.4) * 1.055 - 0.055"
    using l by (simp add: field_simps)
  show "(0.00304::real) powr (1 / 2.4) * 1.055 - 0.055 < 0.039287"
    using u by (simp add: field_simps)
qed

lemma junction_powr: "((0.00304::real) powr (1 / 2.4)) powr 2.4 = 0.00304"
  by (simp add: powr_powr)

lemma invFunc_func_band_low:
  assumes "0.0392768 < v" "v < 0.03928"
  shows "v < RGB_invFunc (RGB_func v)"
proof -
  define p where "p = (0.00304::real) powr (1 / 2.4)"
  have f: "RGB_func v = v / 12.92" using assms(2) by (simp add: RGB_func_def)
  have g: "0.00304 < v / 12.92" using assms(1) by simp
  have "p < (v / 12.92) powr (1 / 2.4)"
    unfolding p_def using g by (intro powr_less_mono2) simp_all
  then have "p * 1.055 - 0.055 < (v / 12.92) powr (1 / 2.4) * 1.055 - 0.055"
    by simp
  moreover have "v < p * 1.055 - 0.055"
    unfolding p_def using junction_bounds(1) assms(2) by simp
  moreover have "RGB_invFunc (v / 12.92) = (v / 12.92) powr (1 / 2.4) * 1.055 - 0.055"
    using g by (simp add: RGB_invFunc_def)
  ultimately show ?thesis by (simp only: f)
qed

lemma invFunc_func_band_high:
  assumes "0.03928 \<le> v" "v \<le> 0.00304 powr (1 / 2.4) * 1.055 - 0.055"
  shows "RGB_invFunc (RGB_func v) < v"
proof -
  define p where "p = (0.00304::real) powr (1 / 2.4)"
  define b where "b = (v + 0.055) / 1.055"
  have b0: "0 < b" using assms(1) by (simp add: b_def)
  have bp: "b \<le> p" using assms(2) by (simp add: b_def p_def field_simps)
  have f: "RGB_func v = b powr 2.4" using assms(1) by (simp add: RGB_func_def b_def)
  have "b powr 2.4 \<le> p powr 2.4"
    using b0 bp by (intro powr_mono2) simp_all
  then have g: "b powr 2.4 \<le> 0.00304"
    unfolding p_def by (simp only: junction_powr)
  then have "RGB_invFunc (b powr 2.4) = b powr 2.4 * 12.92"
    by (simp add: RGB_invFunc_def)
  moreover have "b powr 2.4 * 12.92 \<le> 0.00304 * 12.92" using g by simp
  ultimately have "RGB_invFunc (b powr 2.4) < v" using assms(1) by simp
  then show ?thesis by (simp only: f)
qed

lemma invFunc_func_high:
  assumes "0.00304 powr (1 / 2.4) * 1.055 - 0.055 < v"
  shows "RGB_invFunc (RGB_func v) = v"
proof -
  define p where "p = (0.00304::real) powr (1 / 2.4)"
  define b where "b = (v + 0.055) / 1.055"
  have v0: "0.03928 \<le> v" using assms junction_bounds(1) by simp
  have p0: "0 \<le> p" by (simp add: p_def)
  have b0: "0 < b" using v0 by (simp add: b_def)
  have pb: "p < b" using assms by (simp add: b_def p_def field_simps)
  have f: "RGB_func v = b powr 2.4" using v0 by (simp add: RGB_func_def b_def)
  have "p powr 2.4 < b powr 2.4"
    using p0 pb by (intro powr_less_mono2) simp_all
  then have g: "0.00304 < b powr 2.4"
    unfolding p_def by (simp only: junction_powr)
  have "(b powr 2.4) powr (1 / 2.4) = b"
    using b0 by (simp add: powr_powr)
  then have "RGB_invFunc (b powr 2.4) = b * 1.055 - 0.055"
    using g by (simp add: RGB_invFunc_def)
  moreover have "b * 1.055 - 0.055 = v"
    by (simp add: b_def field_simps)
  ultimately show ?thesis by (simp only: f)
qed

lemma invFunc_func_iff:
  "(RGB_invFunc (RGB_func v) = v) =
     (v \<le> 0.0392768 \<or> 0.00304 powr (1 / 2.4) * 1.055 - 0.055 < v)"
proof (cases "v \<le> 0.0392768")
  case True
  then show ?thesis using invFunc_func_low [of v] by simp
next
  case low: False
  show ?thesis
  proof (cases "0.00304 powr (1 / 2.4) * 1.055 - 0.055 < v")
    case True
    then show ?thesis using invFunc_func_high [of v] by simp
  next
    case False
    have "RGB_invFunc (RGB_func v) \<noteq> v"
    proof (cases "v < 0.03928")
      case True
      then show ?thesis using low invFunc_func_band_low [of v] by simp
    next
      case False
      then show ?thesis using \<open>\<not> 0.00304 powr (1 / 2.4) * 1.055 - 0.055 < v\<close>
          invFunc_func_band_high [of v] by simp
    qed
    then show ?thesis using low False by simp
  qed
qed

text \<open>
  C5, as the code has it, in exact real arithmetic. \<open>RGB.toLRGB\<close> applies \<open>RGB._func\<close> to
  each channel divided by 255, and \<open>RGB._func\<close> is the stated piecewise function. For a
  real \<open>v\<close>, \<open>RGB._invFunc\<close> undoes \<open>RGB._func\<close> exactly when \<open>v \<le> 0.0392768\<close> (that is
  \<open>0.00304 * 12.92\<close>) or \<open>v\<close> is above \<open>1.055 * 0.00304^(1/2.4) - 0.055\<close>, a number
  between \<open>0.039286\<close> and \<open>0.039287\<close>: the round trip fails on the interval between the
  two, which contains the threshold \<open>0.03928\<close>, and nowhere else.
\<close>

theorem RGB_gamma_inverse:
  "RGB_toLRGB (r, g, b) = (RGB_func (r / 255), RGB_func (g / 255), RGB_func (b / 255)) \<and>
   RGB_func x = (if x < 0.03928 then x / 12.92 else ((x + 0.055) / 1.055) powr 2.4) \<and>
   (RGB_invFunc (RGB_func v) = v) =
     (v \<le> 0.0392768 \<or> 0.00304 powr (1 / 2.4) * 1.055 - 0.055 < v) \<and>
   0.039286 < (0.00304::real) powr (1 / 2.4) * 1.055 - 0.055 \<and>
   (0.00304::real) powr (1 / 2.4) * 1.055 - 0.055 < 0.039287"
  using invFunc_func_iff [of v] junction_bounds
  by (simp add: RGB_toLRGB_def RGB_func_def)

theorem RGB_gamma_inverse_witness:
  "RGB_invFunc (RGB_func 0.02) = 0.02 \<and> RGB_invFunc (RGB_func 0.03929) = 0.03929 \<and>
   RGB_invFunc (RGB_func 1) = 1"
  using RGB_gamma_inverse [of 0 0 0 0 "0.02"] RGB_gamma_inverse [of 0 0 0 0 "0.03929"]
    RGB_gamma_inverse [of 0 0 0 0 1]
  by simp

text \<open>
  C5 as stated fails at \<open>v = 0.03928\<close>, a point of \<open>[0, 1]\<close>: there \<open>RGB._func\<close> takes
  the power branch and its value is at most \<open>0.00304\<close>, so \<open>RGB._invFunc\<close> takes the linear
  branch and returns at most \<open>0.0392768\<close>.
\<close>

theorem RGB_gamma_inverse_counterexample:
  "(0::real) \<le> 0.03928 \<and> (0.03928::real) \<le> 1 \<and> RGB_invFunc (RGB_func 0.03928) \<noteq> 0.03928"
proof -
  have "RGB_invFunc (RGB_func 0.03928) = RGB_func 0.03928 * 12.92"
    using func_at_threshold by (simp add: RGB_invFunc_def)
  also have "\<dots> \<le> 0.00304 * 12.92"
    using func_at_threshold by simp
  finally show ?thesis by simp
qed

section \<open>Munsell: the Newton iteration for lightness\<close>

lemma lin_fp_low:
  fixes r s :: real
  shows "0.9 \<le> r \<Longrightarrow> 0.81 \<le> s \<Longrightarrow> 0 < 3 * 0.0467 * s + 2 * 0.5602 * r - 0.1753"
  by (simp add: field_simps)

lemma lin_step_low:
  fixes r s :: real
  shows "0.9 \<le> r \<Longrightarrow> r \<le> 1 \<Longrightarrow> 0.81 \<le> s \<Longrightarrow> s \<le> 1 \<Longrightarrow>
    0.01 * (3 * 0.0467 * s + 2 * 0.5602 * r - 0.1753) \<le> - (r * 0.0121 * 100 - 0.01221 * 100)"
  by (simp add: field_simps)

lemma lin_up_low:
  fixes r s :: real
  shows "0.9 \<le> r \<Longrightarrow> r \<le> 1 \<Longrightarrow> 0.81 \<le> s \<Longrightarrow> s \<le> 1 \<Longrightarrow>
    - (r * 0.0121 * 100 - 0.01221 * 100) \<le> 1 * (3 * 0.0467 * s + 2 * 0.5602 * r - 0.1753)"
  by (simp add: field_simps)

lemma lin_step_high:
  fixes r s c :: real
  shows "1 < r \<Longrightarrow> r \<le> s \<Longrightarrow> s \<le> c \<Longrightarrow>
    0.01 * (3 * 0.0467 * s + 2 * 0.5602 * r - 0.1753)
      \<le> (0.0467 * c + 0.5602 * s - 0.1753 * r + 0.8007) / 100 * 100 - 0.01221 * 100"
  by (simp add: field_simps)

lemma lin_back_high:
  fixes r s c :: real
  shows "1 < r \<Longrightarrow> 2 * r - 1 \<le> s \<Longrightarrow> s \<le> c \<Longrightarrow>
    (0.0467 * c + 0.5602 * s - 0.1753 * r + 0.8007) / 100 * 100 - 0.01221 * 100
      \<le> 0.1401 * c + (1.1204 - 0.9 * 0.1401) * s - (0.1753 + 0.9 * 1.1204) * r + 0.9 * 0.1753"
  by (simp add: field_simps)

lemma expand_back:
  fixes r :: real
  shows "(r - 0.9) * (3 * 0.0467 * (r * r) + 2 * 0.5602 * r - 0.1753)
     = 0.1401 * (r * r * r) + (1.1204 - 0.9 * 0.1401) * (r * r) - (0.1753 + 0.9 * 1.1204) * r + 0.9 * 0.1753"
  by (simp add: field_simps)

lemma y2v_step:
  assumes fv: "finite_js v" and lo: "0.9 \<le> val v" and hi: "val v \<le> 10"
  defines "f \<equiv> Munsell_v2y v * Fin 100 - Fin 0.01221 * Fin 100"
      and "fp \<equiv> Fin 3 * Fin 0.0467 * (v * v) + Fin 2 * Fin 0.5602 * v - Fin 0.1753"
  shows "finite_js ((- f) / fp + v) \<and> 0.9 \<le> val ((- f) / fp + v) \<and> val ((- f) / fp + v) \<le> 10
         \<and> \<not> (\<bar>(- f) / fp + v - v\<bar> < Fin 0.01)"
proof -
  define r where "r = val v"
  define s where "s = r * r"
  define c where "c = s * r"
  have ffp: "finite_js fp" and vfp: "val fp = 3 * 0.0467 * s + 2 * 0.5602 * r - 0.1753"
    using fv by (simp_all add: fp_def fin_simps r_def s_def)
  show ?thesis
  proof (cases "r \<le> 1")
    case True
    have s1: "0.81 \<le> s" "s \<le> 1"
      using lo True mult_mono [of "0.9" r "0.9" r] mult_mono [of r 1 r 1]
      by (simp_all add: s_def r_def)
    have le: "v \<le> Fin 1" using fv True by (simp add: less_eq_fin r_def)
    have ff: "finite_js f" and vf: "val f = r * 0.0121 * 100 - 0.01221 * 100"
      using fv le by (simp_all add: f_def Munsell_v2y_def fin_simps r_def)
    have p: "0 < val fp"
      unfolding vfp using lo s1 by (intro lin_fp_low) (simp_all add: r_def)
    have a: "0.01 * val fp \<le> - val f"
      unfolding vfp vf using lo True s1 by (intro lin_step_low) (simp_all add: r_def)
    have b: "- val f \<le> 1 * val fp"
      unfolding vfp vf using lo True s1 by (intro lin_up_low) (simp_all add: r_def)
    define q where "q = - val f / val fp"
    have q1: "0.01 \<le> q" unfolding q_def using a p by (simp only: pos_le_divide_eq)
    have q2: "q \<le> 1" unfolding q_def using b p by (simp only: pos_divide_le_eq)
    have fq: "finite_js ((- f) / fp)" and vq: "val ((- f) / fp) = q"
      using ff ffp p by (simp_all add: fin_simps q_def)
    have fv1: "finite_js ((- f) / fp + v)" and vv1: "val ((- f) / fp + v) = q + r"
      using fq vq fv by (simp_all add: fin_simps r_def)
    have fd: "finite_js (\<bar>(- f) / fp + v - v\<bar>)"
      and vd: "val (\<bar>(- f) / fp + v - v\<bar>) = \<bar>q\<bar>"
      using fv1 vv1 fv by (simp_all add: fin_simps r_def)
    have "\<not> (\<bar>(- f) / fp + v - v\<bar> < Fin 0.01)"
      using fd vd q1 by (simp add: less_fin)
    moreover have "0.9 \<le> val ((- f) / fp + v)" "val ((- f) / fp + v) \<le> 10"
      unfolding vv1 using q1 q2 lo True by (simp_all add: r_def)
    ultimately show ?thesis using fv1 by simp
  next
    case False
    then have r1: "1 < r" by simp
    have m2: "2 * r - 1 \<le> s"
      using zero_le_square [of "r - 1"] by (simp add: algebra_simps s_def)
    have m2': "r \<le> s" using r1 by (simp add: s_def)
    have m3: "s \<le> c"
      using r1 mult_left_mono [of 1 r s] by (simp add: c_def s_def)
    have nle: "\<not> v \<le> Fin 1" using fv False by (simp add: less_eq_fin r_def)
    have ff: "finite_js f"
      and vf: "val f = (0.0467 * c + 0.5602 * s - 0.1753 * r + 0.8007) / 100 * 100 - 0.01221 * 100"
      using fv nle by (simp_all add: f_def Munsell_v2y_def Let_def fin_simps r_def s_def c_def)
    have p: "0 < val fp"
      unfolding vfp using r1 m2' by (simp add: field_simps)
    have a: "0.01 * val fp \<le> val f"
      unfolding vfp vf using r1 m2' m3 by (rule lin_step_high)
    have "val f \<le> 0.1401 * c + (1.1204 - 0.9 * 0.1401) * s - (0.1753 + 0.9 * 1.1204) * r + 0.9 * 0.1753"
      unfolding vf using r1 m2 m3 by (rule lin_back_high)
    also have "\<dots> = (r - 0.9) * val fp"
      unfolding vfp s_def c_def by (rule expand_back [symmetric])
    finally have b: "val f \<le> (r - 0.9) * val fp" .
    define q where "q = val f / val fp"
    have q1: "0.01 \<le> q" unfolding q_def using a p by (simp only: pos_le_divide_eq)
    have q2: "q \<le> r - 0.9" unfolding q_def using b p by (simp only: pos_divide_le_eq)
    have fq: "finite_js ((- f) / fp)" and vq: "val ((- f) / fp) = - q"
      using ff ffp p by (simp_all add: fin_simps q_def)
    have fv1: "finite_js ((- f) / fp + v)" and vv1: "val ((- f) / fp + v) = - q + r"
      using fq vq fv by (simp_all add: fin_simps r_def)
    have fd: "finite_js (\<bar>(- f) / fp + v - v\<bar>)"
      and vd: "val (\<bar>(- f) / fp + v - v\<bar>) = \<bar>q\<bar>"
      using fv1 vv1 fv by (simp_all add: fin_simps r_def)
    have "\<not> (\<bar>(- f) / fp + v - v\<bar> < Fin 0.01)"
      using fd vd q1 by (simp add: less_fin)
    moreover have "0.9 \<le> val ((- f) / fp + v)" "val ((- f) / fp + v) \<le> 10"
      unfolding vv1 using q1 q2 hi by (simp_all add: r_def)
    ultimately show ?thesis using fv1 by simp
  qed
qed

lemma y2v_loop_diverges_aux:
  assumes "y2v_loop y v = Some w"
  shows "\<not> (y = Fin 0.01221 \<and> finite_js v \<and> 0.9 \<le> val v \<and> val v \<le> 10)"
proof (rule y2v_loop.raw_induct
    [where P = "\<lambda>y v w. \<not> (y = Fin 0.01221 \<and> finite_js v \<and> 0.9 \<le> val v \<and> val v \<le> 10)",
      OF _ assms], goal_cases)
  case (1 loop y v w)
  show ?case
  proof
    assume inv: "y = Fin 0.01221 \<and> finite_js v \<and> 0.9 \<le> val v \<and> val v \<le> 10"
    define f where "f = Munsell_v2y v * Fin 100 - Fin 0.01221 * Fin 100"
    define fp where "fp = Fin 3 * Fin 0.0467 * (v * v) + Fin 2 * Fin 0.5602 * v - Fin 0.1753"
    have st: "finite_js ((- f) / fp + v) \<and> 0.9 \<le> val ((- f) / fp + v) \<and> val ((- f) / fp + v) \<le> 10
         \<and> \<not> (\<bar>(- f) / fp + v - v\<bar> < Fin 0.01)"
      unfolding f_def fp_def using inv by (intro y2v_step) simp_all
    have "loop y ((- f) / fp + v) = Some w"
      using 1(2) st inv by (simp add: Let_def f_def fp_def)
    with 1(1) have "\<not> (y = Fin 0.01221 \<and> finite_js ((- f) / fp + v) \<and> 0.9 \<le> val ((- f) / fp + v) \<and> val ((- f) / fp + v) \<le> 10)"
      by blast
    then show False using st inv by simp
  qed
qed

text \<open>
  C1, at the input where the code departs from it. \<open>Munsell._y2v\<close> has no iteration
  cap: its loop is \<open>while (true)\<close> with the tolerance test as only exit. At
  \<open>Y = 0.01221\<close> the call does not return: \<open>Munsell._v2y\<close> jumps at \<open>V = 1\<close> from
  \<open>0.0121\<close> to \<open>0.012323\<close>, the value \<open>0.01221\<close> lies in the gap, and every iterate that
  starts in \<open>[0.9, 10]\<close> stays there and moves by at least \<open>0.01\<close>.
\<close>

theorem y2v_diverges: "Munsell_y2v (Fin 0.01221) = None"
proof -
  have "\<not> Fin 0.01221 \<le> Fin 0.0121" by (simp add: less_eq_fin)
  moreover have "y2v_loop (Fin 0.01221) (Fin 10) = None"
  proof (cases "y2v_loop (Fin 0.01221) (Fin 10)")
    case (Some w)
    then show ?thesis using y2v_loop_diverges_aux [of "Fin 0.01221" "Fin 10" w] by simp
  qed simp
  ultimately show ?thesis by (simp add: Munsell_y2v_def)
qed
section \<open>Munsell and PCCS: achromatic colours and the hue wrap-around\<close>

lemma Munsell_get_simps:
  "Munsell_get ''MONO_LIMIT_C'' = Num (Fin 0.05)"
  "Munsell_get ''_MAX_HUE'' = Num (Fin 100)"
  "Munsell_get ''_EP'' = Num (Fin 0.0000000000001)"
  "Munsell_get ''MAX_HUE'' = Undefined"
  by (simp_all add: Munsell_get_def Munsell_statics_def)

lemma mono_small:
  "Fin 0 < toNumber (Munsell_get ''MONO_LIMIT_C'')"
  "NZero < toNumber (Munsell_get ''MONO_LIMIT_C'')"
  "Fin 0.01 < toNumber (Munsell_get ''MONO_LIMIT_C'')"
  by (simp_all add: Munsell_get_simps less_fin)

lemma Munsell_toXYZ_achromatic:
  assumes "c < toNumber (Munsell_get ''MONO_LIMIT_C'')"
  shows "Munsell_toXYZ interp (h, v, c) fl =
    (let fl' = fl\<lparr>Munsell_isSaturated := (Munsell_eq0 v \<and> Fin 0 < c)\<rparr>;
         r = Yxy_toXYZ (Munsell_v2y v, fst Munsell_ILLUMINANT_C, snd Munsell_ILLUMINANT_C) fl'
     in (XYZ_fromIlluminantC (fst r), snd r))"
  using assms by (simp add: Munsell_toXYZ_def Let_def split: prod.splits)

text \<open>
  C7. With chroma 0 (of either sign) \<open>Munsell.toXYZ\<close> takes the achromatic branch
  before it looks at the table, so its result and the flags it leaves are the same for
  every two hues, whatever the value \<open>v\<close>; and \<open>Munsell.toString([h, v, 0.01])\<close> is
  \<open>N\<close>, a space, and \<open>v\<close> rounded to one decimal.
\<close>

theorem Munsell_achromatic:
  "Munsell_toXYZ interp (h1, v, Fin 0) fl = Munsell_toXYZ interp (h2, v, Fin 0) fl \<and>
   Munsell_toXYZ interp (h1, v, NZero) fl = Munsell_toXYZ interp (h2, v, NZero) fl \<and>
   Munsell_toString numstr hueName (h, v, Fin 0.01) = ''N '' @ numstr (Math_round (v * Fin 10) / Fin 10)"
  using mono_small by (simp add: Munsell_toXYZ_achromatic Munsell_toString_def Let_def)

lemma concise_H_at_1:
  "finite_js (PCCS_simplyCalcMunsellH (Fin 1)) \<and> val (PCCS_simplyCalcMunsellH (Fin 1)) = - 0.14"
proof -
  have x: "(Fin 1 - Fin 1) * Math_PI / Fin 12 = Fin 0"
    by (simp add: minus_jsnum_def plus_jsnum_def times_jsnum_def divide_jsnum_def is_inf_def
        is_zero_def mk_fin_def signed_zero_def Math_PI_def)
  have m: "Fin 2 * Fin 0 = Fin 0" "Fin 3 * Fin 0 = Fin 0"
    by (simp_all add: times_jsnum_def is_inf_def mk_fin_def signed_zero_def)
  show ?thesis
    unfolding PCCS_simplyCalcMunsellH_def Let_def x
    by (simp add: m Math_PI_def fin_simps)
qed

text \<open>
  C8, at the inputs where the code departs from it. \<open>PCCS.toMunsell\<close> reads
  \<open>Munsell.MAX_HUE\<close>, which is never assigned (the static is \<open>Munsell._MAX_HUE\<close>), so a
  negative hue is not wrapped but becomes NaN. Under the concise method the hue of
  \<open>[1, 5, 0]\<close> is \<open>-0.14\<close> before the wrap and NaN after it; and for a saturation of
  at least \<open>0.01\<close> the call throws, the concise method having no \<open>_calcMunsellC\<close>.
\<close>

theorem PCCS_toMunsell_concise:
  "PCCS_toMunsell CONCISE (Fin 1, Fin 5, Fin 0) = Inr (NaN, Fin 5, Fin 0) \<and>
   PCCS_toMunsell CONCISE (Fin 1, Fin 5, Fin 5) = Inl TypeError"
proof -
  define H where "H = PCCS_simplyCalcMunsellH (Fin 1)"
  have H: "finite_js H" "val H = - 0.14"
    using concise_H_at_1 by (simp_all add: H_def)
  then have neg: "H < Fin 0" by (simp add: less_fin)
  have nan: "H + NaN = NaN" by (simp add: plus_jsnum_def)
  have nle: "\<not> NaN \<le> (NaN::jsnum)" by (simp add: less_eq_jsnum_def)
  have s0: "\<not> PCCS_MONO_LIMIT_S \<le> Fin 0" "PCCS_MONO_LIMIT_S \<le> Fin 5"
    by (simp_all add: PCCS_MONO_LIMIT_S_def less_eq_fin)
  show ?thesis
    using neg nan nle s0
    by (simp add: PCCS_toMunsell_def CONCISE_def Let_def Munsell_get_simps H_def [symmetric])
qed
section \<open>The dispatcher: unknown pairs\<close>

lemma conv_table_keys:
  "length conv_table = 72" "distinct (map fst conv_table)"
  by (simp_all add: conv_table_def)

text \<open>
  C2. The switch of \<open>convert\<close> has 72 labels, all different. When the key built from
  the lowercased names is none of them, \<open>convert\<close> returns its argument \<open>vs\<close>
  unchanged: no converter runs, nothing is thrown.
\<close>

theorem convert_unknown:
  "length conv_table = 72 \<and> distinct (map fst conv_table) \<and>
   (toLowerCase from @ ''-'' @ toLowerCase to \<notin> set (map fst conv_table) \<longrightarrow>
      convert E vs from to = Some vs)"
proof -
  have "convert E vs from to = Some vs"
    if "toLowerCase from @ ''-'' @ toLowerCase to \<notin> set (map fst conv_table)"
  proof -
    from that have "map_of conv_table (toLowerCase from @ ''-'' @ toLowerCase to) = None"
      by (simp add: map_of_eq_None_iff)
    then show ?thesis by (simp add: convert_def)
  qed
  then show ?thesis using conv_table_keys by blast
qed

lemma lower: "toLowerCase ''CMYK'' = ''cmyk''" "toLowerCase ''rgb'' = ''rgb''"
  by code_simp+

theorem convert_unknown_witness:
  "toLowerCase ''CMYK'' @ ''-'' @ toLowerCase ''rgb'' \<notin> set (map fst conv_table) \<and>
   convert (\<lambda>f x. None) [255, 0, 0 :: real] ''CMYK'' ''rgb'' = Some [255, 0, 0]"
  using convert_unknown [of "''CMYK''" "''rgb''" "\<lambda>f x. None" "[255, 0, 0 :: real]"]
  by (simp add: lower conv_table_def)

section \<open>CIEDE2000 is symmetric\<close>

lemma CIEDE2000_decomp:
  "CIEDE2000 (ls1, as1, bs1) (ls2, as2, bs2) =
     (let G = ciede_G as1 bs1 as2 bs2;
          Cp1 = ciede_Cp G as1 bs1; Cp2 = ciede_Cp G as2 bs2;
          hp1 = ciede_hp G as1 bs1; hp2 = ciede_hp G as2 bs2
      in ciede_DE (ls2 - ls1) (Cp2 - Cp1)
           (2 * sqrt (Cp1 * Cp2) * sin_deg (ciede_Dhp Cp1 Cp2 hp1 hp2 / 2))
           ((ls1 + ls2) / 2) ((Cp1 + Cp2) / 2) (ciede_hbp Cp1 Cp2 hp1 hp2))"
  unfolding CIEDE2000_def ciede_G_def ciede_Cp_def ciede_hp_def ciede_DE_def
    ciede_Dhp_def ciede_hbp_def Let_def prod.case
  by (rule refl)

lemma ciede_G_sym: "ciede_G a2 b2 a1 b1 = ciede_G a1 b1 a2 b2"
  by (simp add: ciede_G_def add.commute)

lemma ciede_Dhp_swap: "ciede_Dhp c2 c1 h2 h1 = - ciede_Dhp c1 c2 h1 h2"
  by (simp add: ciede_Dhp_def mult.commute abs_minus_commute)

lemma ciede_hbp_sym: "ciede_hbp c2 c1 h2 h1 = ciede_hbp c1 c2 h1 h2"
  by (simp add: ciede_hbp_def mult.commute abs_minus_commute add.commute)

lemma ciede_DE_neg: "ciede_DE (- a) (- b) (- c) L C h = ciede_DE a b c L C h"
  by (simp add: ciede_DE_def sq_def Let_def)

lemma sin_deg_neg: "sin_deg (- x) = - sin_deg x"
  by (simp add: sin_deg_def)

text \<open>
  C4. \<open>Evaluation.CIEDE2000\<close> is symmetric: exchanging the two Lab triples keeps
  \<open>G\<close>, the mean lightness, chroma and hue, and negates the three differences, which
  enter the result only through squares and through the product of two of them.
\<close>

theorem CIEDE2000_symmetric: "CIEDE2000 a b = CIEDE2000 b a"
proof -
  obtain l1 a1 b1 where a: "a = (l1, a1, b1)" by (cases a)
  obtain l2 a2 b2 where b: "b = (l2, a2, b2)" by (cases b)
  define G where "G = ciede_G a1 b1 a2 b2"
  define c1 where "c1 = ciede_Cp G a1 b1"
  define c2 where "c2 = ciede_Cp G a2 b2"
  define h1 where "h1 = ciede_hp G a1 b1"
  define h2 where "h2 = ciede_hp G a2 b2"
  define D where "D = ciede_Dhp c1 c2 h1 h2"
  have 1: "CIEDE2000 a b =
      ciede_DE (l2 - l1) (c2 - c1) (2 * sqrt (c1 * c2) * sin_deg (D / 2))
        ((l1 + l2) / 2) ((c1 + c2) / 2) (ciede_hbp c1 c2 h1 h2)"
    by (simp add: a b CIEDE2000_decomp Let_def G_def c1_def c2_def h1_def h2_def D_def)
  have "CIEDE2000 b a =
      ciede_DE (l1 - l2) (c1 - c2) (2 * sqrt (c2 * c1) * sin_deg (ciede_Dhp c2 c1 h2 h1 / 2))
        ((l2 + l1) / 2) ((c2 + c1) / 2) (ciede_hbp c2 c1 h2 h1)"
    unfolding a b CIEDE2000_decomp Let_def ciede_G_sym [of a2 b2 a1 b1]
      c1_def c2_def h1_def h2_def G_def
    by (rule refl)
  then have 2: "CIEDE2000 b a =
      ciede_DE (l1 - l2) (c1 - c2) (2 * sqrt (c2 * c1) * sin_deg (- D / 2))
        ((l2 + l1) / 2) ((c2 + c1) / 2) (ciede_hbp c1 c2 h1 h2)"
    by (simp only: ciede_Dhp_swap [of c2 c1 h2 h1] ciede_hbp_sym [of c2 c1 h2 h1] D_def)
  have 3: "l1 - l2 = - (l2 - l1)" "c1 - c2 = - (c2 - c1)"
    "2 * sqrt (c2 * c1) * sin_deg (- D / 2) = - (2 * sqrt (c1 * c2) * sin_deg (D / 2))"
    "(l2 + l1) / 2 = (l1 + l2) / 2" "(c2 + c1) / 2 = (c1 + c2) / 2"
    using sin_deg_neg [of "D / 2"] by (simp_all add: mult.commute add.commute)
  show ?thesis unfolding 1 2 3 by (rule ciede_DE_neg [symmetric])
qed
section \<open>Categorical colour: totality\<close>

lemma tables_valid: "list_all (\<lambda>kt. valid_table (snd kt)) CC_TABLE"
  by (simp add: CC_TABLE_def valid_table_def)

lemma tables_keys: "map fst CC_TABLE = LUM_TABLE"
  by (simp add: CC_TABLE_def LUM_TABLE_def)

lemma MAX_VALUE_big: "2 < MAX_VALUE" "1 \<le> MAX_VALUE"
  by (simp_all add: MAX_VALUE_def)

lemma lum_fold_mem:
  "snd s \<in> S \<Longrightarrow> set ls \<subseteq> S \<Longrightarrow> snd (fold (lum_step lum) ls s) \<in> S"
proof (induction ls arbitrary: s)
  case Nil
  then show ?case by simp
next
  case (Cons l ls)
  have "snd (lum_step lum l s) \<in> S"
    using Cons.prems by (cases s) (auto simp add: lum_step_def Let_def split: option.splits)
  then show ?case using Cons by simp
qed

lemma pow_09_bound:
  assumes "0 \<le> a" "a \<le> MAX_VALUE"
  shows "0 \<le> a powr 0.9" "a powr 0.9 \<le> MAX_VALUE"
proof -
  show "0 \<le> a powr 0.9" by simp
  show "a powr 0.9 \<le> MAX_VALUE"
  proof (cases "a \<le> 1")
    case True
    then have "a powr 0.9 \<le> 1" using assms(1) by (intro powr_le1) simp_all
    then show ?thesis using MAX_VALUE_big by simp
  next
    case False
    then have "a powr 0.9 \<le> a powr 1" by (intro powr_mono) simp_all
    then show ?thesis using assms by simp
  qed
qed

lemma clum_in_table:
  assumes "0 \<le> y" "y * 60 \<le> MAX_VALUE"
  shows "snd (fold (lum_step (Math_pow_09 (y * Y_TO_LUM))) LUM_TABLE (MAX_VALUE, 0)) \<in> set LUM_TABLE"
proof -
  define x where "x = (y * 60) powr 0.9"
  have a0: "0 \<le> y * 60" using assms(1) by simp
  have lum: "Math_pow_09 (y * Y_TO_LUM) = Some x"
    using a0 by (simp add: Math_pow_09_def Y_TO_LUM_def x_def)
  have xb: "0 \<le> x" "x \<le> MAX_VALUE"
    unfolding x_def using a0 assms(2) by (rule pow_09_bound)+
  have d: "\<bar>x - 2\<bar> < MAX_VALUE" using xb MAX_VALUE_big by simp
  have first: "lum_step (Some x) 2 (MAX_VALUE, 0) = (\<bar>x - 2\<bar>, 2)"
    using d by (simp add: lum_step_def)
  have "snd (fold (lum_step (Some x)) [5, 10, 20, 30, 40] (\<bar>x - 2\<bar>, 2)) \<in> set LUM_TABLE"
    by (rule lum_fold_mem) (simp_all add: LUM_TABLE_def)
  then show ?thesis by (simp add: lum LUM_TABLE_def first)
qed

lemma table_of_clum:
  assumes "clum \<in> set LUM_TABLE"
  shows "\<exists>t. map_of CC_TABLE clum = Some t \<and> valid_table t"
proof -
  have "set LUM_TABLE = fst ` set CC_TABLE"
    unfolding tables_keys [symmetric] by simp
  then have "clum \<in> fst ` set CC_TABLE" using assms by simp
  then obtain t where t: "map_of CC_TABLE clum = Some t"
    by (cases "map_of CC_TABLE clum") (simp_all add: map_of_eq_None_iff)
  then have "(clum, t) \<in> set CC_TABLE" by (rule map_of_SomeD)
  then have "valid_table t" using tables_valid by (auto simp add: list_all_iff)
  then show ?thesis using t by blast
qed

lemma cell_step_good:
  assumes "valid_table t" "i < 378" "good_cc (snd s)"
  shows "good_cc (snd (cell_step t sx sy i s))"
proof -
  have len: "i < length t" using assms(1,2) by (simp add: valid_table_def)
  then have "t ! i \<in> set t" by simp
  then have mem: "t ! i \<in> set ''.0123456789a''"
    using assms(1) by (simp add: valid_table_def list_all_iff)
  have "good_cc (char_at t i)" if "char_at t i \<noteq> CChr CHR ''.''"
    using that mem len by (auto simp add: char_at_def good_cc_def)
  then show ?thesis
    using assms(3) by (cases s) (simp add: cell_step_def Let_def)
qed

lemma cell_fold_good:
  assumes "valid_table t"
  shows "\<forall>i \<in> set ixs. i < 378 \<Longrightarrow> good_cc (snd s) \<Longrightarrow> good_cc (snd (fold (cell_step t sx sy) ixs s))"
proof (induction ixs arbitrary: s)
  case Nil
  then show ?case by simp
next
  case (Cons i ixs)
  have "good_cc (snd (cell_step t sx sy i s))"
    using assms Cons.prems by (intro cell_step_good) simp_all
  then show ?case using Cons by simp
qed

lemma decode_good:
  assumes "good_cc cc"
  shows "\<exists>i < 11. (if cc = CChr CHR ''a'' then Some 10 else parseInt cc) = Some i"
  using assms by (auto simp add: good_cc_def parseInt_def)

lemma colours_length: "length CATEGORICAL_COLORS = 11"
  by (simp add: CATEGORICAL_COLORS_def)

lemma categoryOfYxy_unfold:
  "categoryOfYxy (y, sx, sy) =
     (case map_of CC_TABLE (snd (fold (lum_step (Math_pow_09 (y * Y_TO_LUM))) LUM_TABLE (MAX_VALUE, 0))) of
        None \<Rightarrow> ThrowsTypeError
      | Some t \<Rightarrow>
          (case (if snd (fold (cell_step t (sx * 1000) (sy * 1000)) [0 ..< 18 * 21] (MAX_VALUE, CNum 1))
                     = CChr CHR ''a'' then Some 10
                 else parseInt (snd (fold (cell_step t (sx * 1000) (sy * 1000)) [0 ..< 18 * 21]
                                      (MAX_VALUE, CNum 1)))) of
             None \<Rightarrow> ResultUndefined
           | Some i \<Rightarrow>
               if i < length CATEGORICAL_COLORS then Name (CATEGORICAL_COLORS ! i)
               else ResultUndefined))"
  by (simp only: categoryOfYxy_def Let_def prod.case case_prod_beta fst_conv snd_conv)

text \<open>
  C9, as the code has it. For every Yxy triple of reals whose luminance \<open>Y\<close> is not
  negative and for which \<open>Y * 60\<close> does not exceed \<open>Number.MAX_VALUE\<close>,
  \<open>Evaluation.categoryOfYxy\<close> returns one of the 11 names, whatever the chromaticity:
  the luminance search selects one of the six tables, every table has 378 cells holding
  only \<open>.\<close>, digits and \<open>a\<close>, and the decoded index is at most 10.
\<close>

theorem categoryOfYxy_total:
  assumes "0 \<le> y" "y * 60 \<le> MAX_VALUE"
  shows "\<exists>name \<in> set [''white'', ''black'', ''red'', ''green'', ''yellow'', ''blue'', ''brown'',
                        ''purple'', ''pink'', ''orange'', ''gray''].
           categoryOfYxy (y, sx, sy) = Name name"
proof -
  define clum where "clum = snd (fold (lum_step (Math_pow_09 (y * Y_TO_LUM))) LUM_TABLE (MAX_VALUE, 0))"
  have "clum \<in> set LUM_TABLE" unfolding clum_def using assms by (rule clum_in_table)
  then obtain t where t: "map_of CC_TABLE clum = Some t" "valid_table t"
    using table_of_clum by blast
  define cc where "cc = snd (fold (cell_step t (sx * 1000) (sy * 1000)) [0 ..< 18 * 21] (MAX_VALUE, CNum 1))"
  have "good_cc cc"
    unfolding cc_def using t(2) by (intro cell_fold_good) (simp_all add: good_cc_def)
  then obtain i where i: "i < 11" "(if cc = CChr CHR ''a'' then Some 10 else parseInt cc) = Some i"
    using decode_good by blast
  have "categoryOfYxy (y, sx, sy) = Name (CATEGORICAL_COLORS ! i)"
    unfolding categoryOfYxy_unfold clum_def [symmetric] t(1) option.case cc_def [symmetric] i(2)
    using i(1) by (simp only: colours_length if_True)
  moreover have "CATEGORICAL_COLORS ! i \<in> set CATEGORICAL_COLORS"
    using i(1) by (intro nth_mem) (simp add: colours_length)
  ultimately show ?thesis by (simp add: CATEGORICAL_COLORS_def)
qed

theorem categoryOfYxy_total_witness:
  "(0::real) \<le> 0.2126 \<and> 0.2126 * 60 \<le> MAX_VALUE \<and>
   (\<exists>name \<in> set [''white'', ''black'', ''red'', ''green'', ''yellow'', ''blue'', ''brown'',
                        ''purple'', ''pink'', ''orange'', ''gray''].
           categoryOfYxy (0.2126, 0.64, 0.33) = Name name)"
proof -
  have h: "(0::real) \<le> 0.2126" "0.2126 * 60 \<le> MAX_VALUE"
    by (simp_all add: MAX_VALUE_def)
  show ?thesis using h categoryOfYxy_total [OF h, of "0.64" "0.33"] by blast
qed

text \<open>
  C9 as stated fails at \<open>[-1, 0.3, 0.3]\<close>: \<open>Math.pow(-60, 0.9)\<close> is NaN, no entry of
  the luminance table is nearer than the initial distance, \<open>clum\<close> stays 0,
  \<open>_CC_TABLE[0]\<close> is \<open>undefined\<close>, and indexing it throws.
\<close>

theorem categoryOfYxy_counterexample: "categoryOfYxy (- 1, 0.3, 0.3) = ThrowsTypeError"
  by (simp add: categoryOfYxy_def Math_pow_09_def Y_TO_LUM_def LUM_TABLE_def lum_step_def CC_TABLE_def)

end
